theory Spec2Isabelle
  imports Complex_Main
begin

section \<open>JavaScript values used by the trip costing and fleet analytics code\<close>

text \<open>
  A JavaScript number is modelled as a real number, together with the three
  non-finite values \<open>NaN\<close>, \<open>+Infinity\<close> and \<open>-Infinity\<close>. Two things of IEEE binary64 are
  left out and every statement below is to be read with that in mind: rounding of
  finite results to 53 bits (arithmetic on \<open>Fin\<close> is exact, a decimal literal such as
  \<open>33.71\<close> is the fraction \<open>3371/100\<close>, and no finite result overflows to an infinity),
  and the sign of zero (there is one zero; the source never divides by a value that
  can be zero, which is the only place where the sign could be observed).
\<close>

datatype number = NaN | NInf | Fin real | PInf

fun num_add :: "number \<Rightarrow> number \<Rightarrow> number" where
  "num_add (Fin a) (Fin b) = Fin (a + b)"
| "num_add NaN _ = NaN"
| "num_add _ NaN = NaN"
| "num_add PInf NInf = NaN"
| "num_add NInf PInf = NaN"
| "num_add PInf _ = PInf"
| "num_add _ PInf = PInf"
| "num_add NInf _ = NInf"
| "num_add _ NInf = NInf"

definition signed_inf :: "bool \<Rightarrow> number" where
  "signed_inf positive = (if positive then PInf else NInf)"

fun num_mul :: "number \<Rightarrow> number \<Rightarrow> number" where
  "num_mul (Fin a) (Fin b) = Fin (a * b)"
| "num_mul NaN _ = NaN"
| "num_mul _ NaN = NaN"
| "num_mul PInf (Fin b) = (if b = 0 then NaN else signed_inf (0 < b))"
| "num_mul NInf (Fin b) = (if b = 0 then NaN else signed_inf (b < 0))"
| "num_mul (Fin a) PInf = (if a = 0 then NaN else signed_inf (0 < a))"
| "num_mul (Fin a) NInf = (if a = 0 then NaN else signed_inf (a < 0))"
| "num_mul PInf PInf = PInf"
| "num_mul NInf NInf = PInf"
| "num_mul PInf NInf = NInf"
| "num_mul NInf PInf = NInf"

text \<open>Division; a zero divisor is the positive zero.\<close>

fun num_div :: "number \<Rightarrow> number \<Rightarrow> number" where
  "num_div (Fin a) (Fin b) =
     (if b = 0 then (if a = 0 then NaN else signed_inf (0 < a)) else Fin (a / b))"
| "num_div NaN _ = NaN"
| "num_div _ NaN = NaN"
| "num_div (Fin a) PInf = Fin 0"
| "num_div (Fin a) NInf = Fin 0"
| "num_div PInf (Fin b) = signed_inf (0 \<le> b)"
| "num_div NInf (Fin b) = signed_inf (b < 0)"
| "num_div PInf PInf = NaN"
| "num_div PInf NInf = NaN"
| "num_div NInf PInf = NaN"
| "num_div NInf NInf = NaN"

text \<open>The relational operators \<open><\<close> and \<open><=\<close>: false as soon as an operand is \<open>NaN\<close>.\<close>

fun num_lt :: "number \<Rightarrow> number \<Rightarrow> bool" where
  "num_lt (Fin a) (Fin b) = (a < b)"
| "num_lt NaN _ = False"
| "num_lt _ NaN = False"
| "num_lt _ NInf = False"
| "num_lt PInf _ = False"
| "num_lt NInf _ = True"
| "num_lt _ PInf = True"

fun num_le :: "number \<Rightarrow> number \<Rightarrow> bool" where
  "num_le (Fin a) (Fin b) = (a \<le> b)"
| "num_le NaN _ = False"
| "num_le _ NaN = False"
| "num_le NInf _ = True"
| "num_le _ PInf = True"
| "num_le _ NInf = False"
| "num_le PInf _ = False"

definition num_gt :: "number \<Rightarrow> number \<Rightarrow> bool" where
  "num_gt a b = num_lt b a"

definition num_ge :: "number \<Rightarrow> number \<Rightarrow> bool" where
  "num_ge a b = num_le b a"

text \<open>\<open>!x\<close> on a number: true for zero and for \<open>NaN\<close>.\<close>

definition falsy :: "number \<Rightarrow> bool" where
  "falsy x = (x = Fin 0 \<or> x = NaN)"

text \<open>
  \<open>Math.round\<close> rounds to the nearest integer, a tie going up (towards \<open>+Infinity\<close>);
  \<open>Math.ceil\<close> is the ceiling. Both leave the non-finite values as they are.
\<close>

fun Math_round :: "number \<Rightarrow> number" where
  "Math_round (Fin a) = Fin (of_int \<lfloor>a + 1 / 2\<rfloor>)"
| "Math_round x = x"

fun Math_ceil :: "number \<Rightarrow> number" where
  "Math_ceil (Fin a) = Fin (of_int \<lceil>a\<rceil>)"
| "Math_ceil x = x"

subsection \<open>Strings\<close>

text \<open>
  A string is the list of the bytes of its UTF-8 encoding. The characters the source
  looks for (digits, \<open>.\<close>, \<open>L\<close>, \<open>h\<close>, \<open>min\<close>, \<open>kg\<close>, \<open>$\<close>, \<open>train\<close>, \<open>rail\<close>) are ASCII
  and an ASCII byte never occurs inside the encoding of another character, so searching
  the bytes finds what searching the characters finds.
\<close>

definition isDigit :: "char \<Rightarrow> bool" where
  "isDigit c = (c \<in> set ''0123456789'')"

definition digitVal :: "char \<Rightarrow> nat" where
  "digitVal c = of_char c - 48"

definition natOfDigits :: "string \<Rightarrow> nat" where
  "natOfDigits ds = foldl (\<lambda>acc c. 10 * acc + digitVal c) 0 ds"

fun startsWith :: "string \<Rightarrow> string \<Rightarrow> bool" where
  "startsWith _ [] = True"
| "startsWith [] (p # ps) = False"
| "startsWith (c # cs) (p # ps) = (c = p \<and> startsWith cs ps)"

text \<open>\<open>s.includes(p)\<close>: \<open>p\<close> occurs in \<open>s\<close> as a substring.\<close>

fun includes_str :: "string \<Rightarrow> string \<Rightarrow> bool" where
  "includes_str [] p = (p = [])"
| "includes_str (c # cs) p = (startsWith (c # cs) p \<or> includes_str cs p)"

text \<open>
  \<open>toLowerCase\<close>: the letters \<open>A\<close> to \<open>Z\<close> go to \<open>a\<close> to \<open>z\<close>. Letters outside ASCII are kept
  as they are, which is less than the Unicode mapping does; no statement below depends
  on what happens to them.
\<close>

definition lowerChar :: "char \<Rightarrow> char" where
  "lowerChar c =
     (case map_of (zip ''ABCDEFGHIJKLMNOPQRSTUVWXYZ'' ''abcdefghijklmnopqrstuvwxyz'') c of
        None \<Rightarrow> c
      | Some l \<Rightarrow> l)"

definition toLowerCase :: "string \<Rightarrow> string" where
  "toLowerCase s = map lowerChar s"

text \<open>
  White space as \<open>parseFloat\<close> trims it and as \<open>\s\<close> matches it: the characters
  U+0009 to U+000D, U+0020, U+00A0, U+1680, U+2000 to U+200A, U+2028, U+2029, U+202F,
  U+205F, U+3000 and U+FEFF, each as its UTF-8 bytes.
\<close>

definition whiteSpace :: "string list" where
  "whiteSpace =
     [[CHR 0x09], [CHR 0x0A], [CHR 0x0B], [CHR 0x0C], [CHR 0x0D], [CHR 0x20],
      [CHR 0xC2, CHR 0xA0], [CHR 0xE1, CHR 0x9A, CHR 0x80],
      [CHR 0xE2, CHR 0x80, CHR 0x80], [CHR 0xE2, CHR 0x80, CHR 0x81],
      [CHR 0xE2, CHR 0x80, CHR 0x82], [CHR 0xE2, CHR 0x80, CHR 0x83],
      [CHR 0xE2, CHR 0x80, CHR 0x84], [CHR 0xE2, CHR 0x80, CHR 0x85],
      [CHR 0xE2, CHR 0x80, CHR 0x86], [CHR 0xE2, CHR 0x80, CHR 0x87],
      [CHR 0xE2, CHR 0x80, CHR 0x88], [CHR 0xE2, CHR 0x80, CHR 0x89],
      [CHR 0xE2, CHR 0x80, CHR 0x8A], [CHR 0xE2, CHR 0x80, CHR 0xA8],
      [CHR 0xE2, CHR 0x80, CHR 0xA9], [CHR 0xE2, CHR 0x80, CHR 0xAF],
      [CHR 0xE2, CHR 0x81, CHR 0x9F], [CHR 0xE3, CHR 0x80, CHR 0x80],
      [CHR 0xEF, CHR 0xBB, CHR 0xBF]]"

text \<open>The number of bytes of the white-space character at the head of the string, 0 if none.\<close>

definition wsLen :: "string \<Rightarrow> nat" where
  "wsLen s = (case filter (startsWith s) whiteSpace of [] \<Rightarrow> 0 | w # _ \<Rightarrow> length w)"

fun trimStart :: "string \<Rightarrow> string" where
  "trimStart [] = []"
| "trimStart (c # cs) =
     (if wsLen (c # cs) = 0 then c # cs else trimStart (drop (wsLen (c # cs) - 1) cs))"

text \<open>
  \<open>parseFloat\<close>: leading white space is dropped, then the longest prefix that is a
  decimal literal is read: an optional sign, then \<open>Infinity\<close> or digits with an optional
  fraction (at least one digit in all) and an optional exponent. Whatever follows is
  ignored; with no such prefix the result is \<open>NaN\<close>.
\<close>

definition splitSign :: "string \<Rightarrow> bool \<times> string" where
  "splitSign s =
     (case s of
        [] \<Rightarrow> (False, [])
      | c # r \<Rightarrow> if c = CHR ''-'' then (True, r) else if c = CHR ''+'' then (False, r)
                 else (False, s))"

definition exponentPart :: "string \<Rightarrow> int" where
  "exponentPart s =
     (case s of
        [] \<Rightarrow> 0
      | c # r \<Rightarrow>
          if c = CHR ''e'' \<or> c = CHR ''E'' then
            (let (neg, r') = splitSign r; ds = takeWhile isDigit r'
             in if ds = [] then 0
                else if neg then - int (natOfDigits ds) else int (natOfDigits ds))
          else 0)"

definition scale10 :: "real \<Rightarrow> int \<Rightarrow> real" where
  "scale10 q e = (if 0 \<le> e then q * 10 ^ nat e else q / 10 ^ nat (- e))"

definition strUnsignedDecimal :: "string \<Rightarrow> real option" where
  "strUnsignedDecimal s =
     (let ip = takeWhile isDigit s;
          r1 = dropWhile isDigit s;
          (fp, r2) = (case r1 of
                        [] \<Rightarrow> ([], r1)
                      | c # r \<Rightarrow> if c = CHR ''.''
                                 then (takeWhile isDigit r, dropWhile isDigit r)
                                 else ([], r1))
      in if ip = [] \<and> fp = [] then None
         else Some (scale10 (of_nat (natOfDigits ip)
                             + of_nat (natOfDigits fp) / 10 ^ length fp)
                            (exponentPart r2)))"

definition parseFloat :: "string \<Rightarrow> number" where
  "parseFloat s =
     (let (neg, u) = splitSign (trimStart s)
      in if startsWith u ''Infinity'' then (if neg then NInf else PInf)
         else case strUnsignedDecimal u of
                None \<Rightarrow> NaN
              | Some q \<Rightarrow> Fin (if neg then - q else q))"

text \<open>
  The regular expressions of the source all have the shape "a run of one character
  class, then something outside the class": \<open>/([\d.]+)/\<close>, \<open>/([\d.]+)L/\<close>, \<open>/(\d+)h/\<close>
  and \<open>/(\d+)\s*min/\<close>. A match is the leftmost one and the run is greedy; giving
  characters back cannot help, because what must follow the run is not in the class.
  So the captured group is the first maximal run of the class that is followed as the
  pattern asks, and a run that is not is skipped whole. \<open>firstRun cls follows s\<close> is that
  group, \<open>None\<close> when \<open>match\<close> returns \<open>null\<close>.
\<close>

function firstRun :: "(char \<Rightarrow> bool) \<Rightarrow> (string \<Rightarrow> bool) \<Rightarrow> string \<Rightarrow> string option" where
  "firstRun cls follows [] = None"
| "firstRun cls follows (c # cs) =
     (if cls c then
        (if follows (dropWhile cls cs) then Some (c # takeWhile cls cs)
         else firstRun cls follows (dropWhile cls cs))
      else firstRun cls follows cs)"
  by pat_completeness auto
termination
  by (relation "measure (\<lambda>(cls, follows, s). length s)")
     (auto simp: le_imp_less_Suc length_dropWhile_le)

definition numChar :: "char \<Rightarrow> bool" where
  "numChar c = (isDigit c \<or> c = CHR ''.'')"

text \<open>\<open>s.match(/([\d.]+)/)\<close>, group 1.\<close>

definition matchNumber :: "string \<Rightarrow> string option" where
  "matchNumber s = firstRun numChar (\<lambda>rest. True) s"

text \<open>\<open>s.match(/([\d.]+)L/)\<close>, group 1.\<close>

definition matchNumberL :: "string \<Rightarrow> string option" where
  "matchNumberL s = firstRun numChar (\<lambda>rest. startsWith rest ''L'') s"

text \<open>\<open>s.match(/(\d+)h/)\<close> and \<open>s.match(/(\d+)\s*min/)\<close>, group 1.\<close>

definition matchHours :: "string \<Rightarrow> string option" where
  "matchHours s = firstRun isDigit (\<lambda>rest. startsWith rest ''h'') s"

definition matchMinutes :: "string \<Rightarrow> string option" where
  "matchMinutes s = firstRun isDigit (\<lambda>rest. startsWith (trimStart rest) ''min'') s"

text \<open>\<open>parseInt\<close> of a captured, non-empty run of digits.\<close>

definition parseInt :: "string \<Rightarrow> number" where
  "parseInt ds = Fin (of_nat (natOfDigits ds))"

subsection \<open>Numbers as text\<close>

text \<open>
  \<open>Number.prototype.toString\<close> and \<open>toFixed(1)\<close>. An integer below \<open>10^21\<close> in magnitude
  prints as its decimal digits, and \<open>toFixed(1)\<close> below \<open>10^21\<close> prints the nearest
  multiple of one tenth, a tie going away from zero. Everywhere else the engine prints
  the shortest digits that read back as the same binary64 value, which has no
  counterpart on real numbers: that rendering is the parameter \<open>render\<close>.
\<close>

fun digits :: "nat \<Rightarrow> string" where
  "digits n = (if n < 10 then [''0123456789'' ! n]
               else digits (n div 10) @ [''0123456789'' ! (n mod 10)])"

declare digits.simps [simp del]

definition signPrefix :: "real \<Rightarrow> string" where
  "signPrefix q = (if q < 0 then ''-'' else [])"

definition numberToString :: "(real \<Rightarrow> string) \<Rightarrow> number \<Rightarrow> string" where
  "numberToString render x =
     (case x of
        NaN \<Rightarrow> ''NaN''
      | PInf \<Rightarrow> ''Infinity''
      | NInf \<Rightarrow> ''-Infinity''
      | Fin q \<Rightarrow>
          signPrefix q @
          (if q = of_int \<lfloor>q\<rfloor> \<and> \<bar>q\<bar> < 10 ^ 21 then digits (nat \<bar>\<lfloor>q\<rfloor>\<bar>)
           else render \<bar>q\<bar>))"

definition toFixed1 :: "(real \<Rightarrow> string) \<Rightarrow> number \<Rightarrow> string" where
  "toFixed1 render x =
     (case x of
        NaN \<Rightarrow> ''NaN''
      | PInf \<Rightarrow> ''Infinity''
      | NInf \<Rightarrow> ''-Infinity''
      | Fin q \<Rightarrow>
          signPrefix q @
          (if 10 ^ 21 \<le> \<bar>q\<bar> then render \<bar>q\<bar>
           else (let n = nat \<lfloor>\<bar>q\<bar> * 10 + 1 / 2\<rfloor>
                 in digits (n div 10) @ ''.'' @ digits (n mod 10))))"

subsection \<open>Reading a property of an object\<close>

text \<open>
  The tables of the source are object literals, read with \<open>table[key]\<close> for a key that
  comes from the data. Such an object has its own keys, modelled as a map, and behind
  them the properties that every object inherits from \<open>Object.prototype\<close>:
  \<open>table["constructor"]\<close> is a function, not \<open>undefined\<close>. The inherited names are those
  of the language standard, Annex B included. An own key hides an inherited one.
\<close>

definition objectPrototypeNames :: "string list" where
  "objectPrototypeNames =
     [''constructor'', ''__defineGetter__'', ''__defineSetter__'', ''hasOwnProperty'',
      ''__lookupGetter__'', ''__lookupSetter__'', ''isPrototypeOf'',
      ''propertyIsEnumerable'', ''toString'', ''valueOf'', ''__proto__'',
      ''toLocaleString'']"

datatype 'a property = Missing | Own 'a | Inherited string

definition getProperty :: "(string \<rightharpoonup> 'a) \<Rightarrow> string \<Rightarrow> 'a property" where
  "getProperty obj key =
     (case obj key of
        Some v \<Rightarrow> Own v
      | None \<Rightarrow> if key \<in> set objectPrototypeNames then Inherited key else Missing)"

text \<open>
  What is read from a table of numbers is \<open>undefined\<close> (\<open>Missing\<close>), a number, or one of
  the inherited members, each of which is a function or, for \<open>__proto__\<close>, the object
  \<open>Object.prototype\<close>. \<open>truthy\<close> is the value in a condition: \<open>undefined\<close> is false, a
  number is false when it is zero or \<open>NaN\<close>, a function or object is true. \<open>toNumber\<close> is
  the value as an operand of \<open>*\<close>: a function or \<open>Object.prototype\<close> is converted through
  its text, which is not a numeral, so it is \<open>NaN\<close>, as is \<open>undefined\<close>.
\<close>

definition truthy :: "number property \<Rightarrow> bool" where
  "truthy v = (case v of Missing \<Rightarrow> False | Own n \<Rightarrow> \<not> falsy n | Inherited k \<Rightarrow> True)"

definition toNumber :: "number property \<Rightarrow> number" where
  "toNumber v = (case v of Missing \<Rightarrow> NaN | Own n \<Rightarrow> n | Inherited k \<Rightarrow> NaN)"

datatype error = TypeError

section \<open>Car trip cost: \<open>src/utils/getCarCost.ts\<close>\<close>

record Trip =
  trip_carModel :: string
  trip_distance :: "string + number"

record Car =
  brand :: string
  model :: string
  fuelType :: string
  efficiency :: string

type_synonym FuelPrices = "string \<rightharpoonup> number"

text \<open>
  A price table is an object with number-valued own keys, given as the map of those
  keys; \<open>prices[key]\<close> is \<open>getProperty prices key\<close>.
\<close>

definition czFuelPrices :: FuelPrices where
  "czFuelPrices = map_of
     [(''Petrol'', Fin (3371 / 100)),
      (''Diesel'', Fin (3224 / 100)),
      (''Hybrid'', Fin (3371 / 100)),
      (''Plug-in Hybrid Electric Vehicle'', Fin (3371 / 100)),
      (''Battery Electric Vehicle'', Fin 15)]"

definition parseEfficiencyValue :: "string \<Rightarrow> number" where
  "parseEfficiencyValue eff =
     (case matchNumber eff of None \<Rightarrow> NaN | Some m \<Rightarrow> parseFloat m)"

definition isElectric :: "string \<Rightarrow> bool" where
  "isElectric ft = (ft = ''Battery Electric Vehicle'')"

definition getCarCost :: "Trip \<Rightarrow> Car list \<Rightarrow> FuelPrices \<Rightarrow> number" where
  "getCarCost trip cars prices =
     (let distanceKm = (case trip_distance trip of Inl s \<Rightarrow> parseFloat s | Inr n \<Rightarrow> n)
      in if falsy distanceKm \<or> distanceKm = NaN then Fin 0
         else
           case find (\<lambda>c. toLowerCase (brand c @ '' '' @ model c)
                            = toLowerCase (trip_carModel trip)) cars of
             None \<Rightarrow> Fin 0
           | Some car \<Rightarrow>
               (let eff = parseEfficiencyValue (efficiency car)
                in if falsy eff then Fin 0
                   else
                     (let unitPrice = (case getProperty prices (fuelType car) of
                                         Missing \<Rightarrow> Own (Fin 0)
                                       | v \<Rightarrow> v)
                      in if \<not> truthy unitPrice then Fin 0
                         else
                           (let tripCost =
                                  num_mul (num_mul distanceKm (num_div eff (Fin 100)))
                                          (toNumber unitPrice)
                            in num_div (Math_round (num_mul tripCost (Fin 100)))
                                       (Fin 100)))))"

definition getTotalCost :: "Trip list \<Rightarrow> Car list \<Rightarrow> FuelPrices \<Rightarrow> number" where
  "getTotalCost trips cars prices =
     foldl (\<lambda>sum t. num_add sum (getCarCost t cars prices)) (Fin 0) trips"

definition getCostPerKm :: "number \<Rightarrow> number \<Rightarrow> number" where
  "getCostPerKm totalCost totalDistanceKm =
     (if num_gt totalDistanceKm (Fin 0) then num_div totalCost totalDistanceKm else Fin 0)"

text \<open>
  Names for three things the statements about \<open>getCarCost\<close> speak of: the distance
  of the trip as a number (the first line of \<open>getCarCost\<close>), the car that the look-up
  by lower-cased \<open>brand model\<close> finds, and rounding to 2 decimal places as
  \<open>Math.round(x * 100) / 100\<close> does it on a real number.
\<close>

definition distanceKmOf :: "Trip \<Rightarrow> number" where
  "distanceKmOf trip = (case trip_distance trip of Inl s \<Rightarrow> parseFloat s | Inr n \<Rightarrow> n)"

definition findCar :: "Car list \<Rightarrow> string \<Rightarrow> Car option" where
  "findCar cars name =
     find (\<lambda>c. toLowerCase (brand c @ '' '' @ model c) = toLowerCase name) cars"

definition round2 :: "real \<Rightarrow> real" where
  "round2 x = of_int \<lfloor>x * 100 + 1 / 2\<rfloor> / 100"

section \<open>Route options: \<open>src/components/GoogleMapsRouting.tsx\<close>\<close>

text \<open>
  The factor table and each of its entries are object literals, given as the maps of
  their own keys; they are read with \<open>getProperty\<close>.
\<close>

definition emissionFactors :: "string \<rightharpoonup> (string \<rightharpoonup> number)" where
  "emissionFactors = map_of
     [(''Small car'', map_of
         [(''Diesel'', Fin (13994 / 100000)),
          (''Petrol'', Fin (1437 / 10000)),
          (''Hybrid'', Fin (11274 / 100000)),
          (''Plug-in Hybrid Electric Vehicle'', Fin (3012 / 100000)),
          (''Battery Electric Vehicle'', Fin 0)]),
      (''Medium car'', map_of
         [(''Diesel'', Fin (16807 / 100000)),
          (''Petrol'', Fin (17726 / 100000)),
          (''Hybrid'', Fin (1149 / 10000)),
          (''Plug-in Hybrid Electric Vehicle'', Fin (812 / 10000)),
          (''Battery Electric Vehicle'', Fin 0)]),
      (''Large car'', map_of
         [(''Diesel'', Fin (20729 / 100000)),
          (''Petrol'', Fin (26885 / 100000)),
          (''Hybrid'', Fin (15486 / 100000)),
          (''Plug-in Hybrid Electric Vehicle'', Fin (10306 / 100000)),
          (''Battery Electric Vehicle'', Fin 0)]),
      (''Average car'', map_of
         [(''Diesel'', Fin (16984 / 100000)),
          (''Petrol'', Fin (1645 / 10000)),
          (''Hybrid'', Fin (12607 / 100000)),
          (''Plug-in Hybrid Electric Vehicle'', Fin (936 / 10000)),
          (''Battery Electric Vehicle'', Fin 0)])]"

text \<open>The text \<open>kg CO\<close> followed by the subscript two (U+2082).\<close>

definition kgCO2 :: string where
  "kgCO2 = ''kg CO'' @ [CHR 0xE2, CHR 0x82, CHR 0x82]"

text \<open>
  \<open>emissionFactors[marketSegment]\<close> is a segment's entry, \<open>undefined\<close>, or an inherited
  member of the table; the test \<open>if (segmentData)\<close> lets the last two kinds through.
  \<open>segmentData[fuelType]\<close> is then read by \<open>readFactor\<close>, whose result is \<open>None\<close> for
  \<open>undefined\<close> and otherwise the number that the value is as an operand of \<open>*\<close>. A
  property of a segment's entry is a factor, \<open>undefined\<close>, or an inherited member, which
  is not \<open>undefined\<close> and is \<open>NaN\<close> as a number. A property of an inherited member is
  whatever the engine's built-in \<open>Object.prototype[k]\<close> has under that name (for the
  function \<open>constructor\<close>: \<open>length\<close>, \<open>name\<close>, \<open>keys\<close> and more): the parameter
  \<open>member k name\<close>, which is an error when reading it throws.
\<close>

definition readFactor ::
    "(string \<Rightarrow> string \<Rightarrow> error + number option) \<Rightarrow> (string \<rightharpoonup> number) property
       \<Rightarrow> string \<Rightarrow> error + number option" where
  "readFactor member segmentData fuelTy =
     (case segmentData of
        Missing \<Rightarrow> Inr None
      | Own entry \<Rightarrow>
          (case getProperty entry fuelTy of
             Missing \<Rightarrow> Inr None
           | v \<Rightarrow> Inr (Some (toNumber v)))
      | Inherited k \<Rightarrow> member k fuelTy)"

definition calculateRealEmissions ::
    "(string \<Rightarrow> string \<Rightarrow> error + number option) \<Rightarrow> (real \<Rightarrow> string)
       \<Rightarrow> string \<Rightarrow> string \<Rightarrow> number \<Rightarrow> error + string" where
  "calculateRealEmissions member render fuelTy marketSegment distanceKm =
     (let segmentData = getProperty emissionFactors marketSegment
      in if segmentData \<noteq> Missing then
           (case readFactor member segmentData fuelTy of
              Inl e \<Rightarrow> Inl e
            | Inr None \<Rightarrow> Inr ''N/A''
            | Inr (Some factor) \<Rightarrow>
                (let totalEmissionsKg = num_mul factor distanceKm
                 in if num_lt totalEmissionsKg (Fin 1)
                    then Inr (toFixed1 render totalEmissionsKg @ kgCO2)
                    else Inr (toFixed1 render totalEmissionsKg @ kgCO2)))
         else Inr ''N/A'')"

definition hasTrainService :: "string list \<Rightarrow> bool" where
  "hasTrainService transitTypes =
     list_ex (\<lambda>ty. includes_str (toLowerCase ty) ''train''
                  \<or> includes_str (toLowerCase ty) ''rail'') transitTypes"

definition calculatePublicTransportCost ::
    "(real \<Rightarrow> string) \<Rightarrow> number \<Rightarrow> number \<Rightarrow> string list \<Rightarrow> string" where
  "calculatePublicTransportCost render distance durationMinutes transitTypes =
     (if hasTrainService transitTypes then
        (let trainCost = num_mul distance (Fin (3 / 2))
         in numberToString render (Math_round trainCost) @ '' CZK'')
      else if num_lt durationMinutes (Fin 30) then ''30 CZK''
      else if num_le durationMinutes (Fin 90) then ''40 CZK''
      else ''120 CZK'')"

text \<open>
  \<open>calculateCarCost\<close> reads the selected car and the car list from the component's
  state; here they are arguments. It hands the distance over as
  \<open>distanceKm.toString()\<close>, which \<open>getCarCost\<close> reads back with \<open>parseFloat\<close>: printing a
  number and reading it back gives the number again, so the trip carries the number.
\<close>

definition calculateCarCost ::
    "(real \<Rightarrow> string) \<Rightarrow> Car option \<Rightarrow> Car list \<Rightarrow> number \<Rightarrow> string" where
  "calculateCarCost render selectedCar carsDatabase distanceKm =
     (case selectedCar of
        None \<Rightarrow> ''N/A''
      | Some sc \<Rightarrow>
          if carsDatabase = [] \<or> num_le distanceKm (Fin 0) then ''N/A''
          else
            (let trip = \<lparr>trip_carModel = brand sc @ '' '' @ model sc,
                         trip_distance = Inr distanceKm\<rparr>;
                 cost = getCarCost trip carsDatabase czFuelPrices
             in if num_gt cost (Fin 0)
                then numberToString render (Math_round cost) @ '' CZK''
                else ''N/A''))"

section \<open>Fleet analytics: the dashboard page\<close>

record TripRecord =
  userId :: string
  userDepartment :: string
  userFuelType :: string
  userMarketSegment :: string
  carBrand :: string
  carModel :: string
  carFuelType :: string
  carEfficiency :: string
  distance :: string
  duration :: string
  co2Emissions :: string
  transportType :: string
  cost :: string
  startLocation :: string
  destination :: string
  scheduledDateTime :: string
  tripTimestamp :: string

record FilterState =
  period :: string
  department :: string
  driverName :: string
  filter_carModel :: string

subsection \<open>Dates\<close>

text \<open>
  A valid \<open>Date\<close> is given by what its local-time getters return: the year, the month
  (0 to 11), the day of the month, and the milliseconds since local midnight; \<open>None\<close> is
  the invalid date. The host's zone is taken to have a fixed offset, so that time
  values are ordered as these fields are, read from the year down, and two dates built
  from the same fields are the same instant.
\<close>

record localTime =
  getFullYear :: int
  getMonth :: int
  getDate :: int
  msOfDay :: int

type_synonym jsdate = "localTime option"

definition timeLT :: "localTime \<Rightarrow> localTime \<Rightarrow> bool" where
  "timeLT a b =
     (getFullYear a < getFullYear b \<or>
      (getFullYear a = getFullYear b \<and>
       (getMonth a < getMonth b \<or>
        (getMonth a = getMonth b \<and>
         (getDate a < getDate b \<or>
          (getDate a = getDate b \<and> msOfDay a < msOfDay b))))))"

definition timeLE :: "localTime \<Rightarrow> localTime \<Rightarrow> bool" where
  "timeLE a b = (timeLT a b \<or> a = b)"

text \<open>
  \<open>new Date(y, m, d)\<close> for a month and a day in range: local midnight of that day. A
  year from 0 to 99 stands for 1900 plus that year.
\<close>

definition newDate :: "int \<Rightarrow> int \<Rightarrow> int \<Rightarrow> localTime" where
  "newDate y m d =
     \<lparr>getFullYear = (if 0 \<le> y \<and> y \<le> 99 then 1900 + y else y),
      getMonth = m, getDate = d, msOfDay = 0\<rparr>"

definition isLeapYear :: "int \<Rightarrow> bool" where
  "isLeapYear y = (y mod 4 = 0 \<and> (y mod 100 \<noteq> 0 \<or> y mod 400 = 0))"

definition daysInMonth :: "int \<Rightarrow> int \<Rightarrow> int" where
  "daysInMonth y m =
     (if m = 1 then (if isLeapYear y then 29 else 28)
      else if m = 3 \<or> m = 5 \<or> m = 8 \<or> m = 10 then 30 else 31)"

text \<open>
  \<open>setDate(n)\<close> for \<open>n\<close> from -27 up to the length of the month, which covers the call of
  the source (the day of the month minus 7): a day below 1 counts back from the end of
  the month before.
\<close>

definition setDate :: "localTime \<Rightarrow> int \<Rightarrow> localTime" where
  "setDate t n =
     (if 1 \<le> n then t\<lparr>getDate := n\<rparr>
      else if getMonth t = 0
      then t\<lparr>getFullYear := getFullYear t - 1, getMonth := 11,
             getDate := n + daysInMonth (getFullYear t - 1) 11\<rparr>
      else t\<lparr>getMonth := getMonth t - 1,
             getDate := n + daysInMonth (getFullYear t) (getMonth t - 1)\<rparr>)"

text \<open>
  \<open>isInPeriod\<close> reads the clock (\<open>new Date()\<close>); the reading is the argument \<open>now\<close>.
\<close>

definition isInPeriod :: "localTime \<Rightarrow> jsdate \<Rightarrow> string \<Rightarrow> bool" where
  "isInPeriod now tripDate per =
     (let today = newDate (getFullYear now) (getMonth now) (getDate now)
      in if per = ''Today'' then
           (case tripDate of
              None \<Rightarrow> False
            | Some td \<Rightarrow>
                (let tripToday = newDate (getFullYear td) (getMonth td) (getDate td)
                 in tripToday = today))
         else if per = ''Week'' then
           (let weekAgo = setDate today (getDate today - 7)
            in case tripDate of
                 None \<Rightarrow> False
               | Some td \<Rightarrow> timeLE weekAgo td \<and> timeLE td now)
         else if per = ''Month'' then
           (case tripDate of
              None \<Rightarrow> False
            | Some td \<Rightarrow> getMonth td = getMonth now \<and> getFullYear td = getFullYear now)
         else if per = ''Year'' then
           (case tripDate of
              None \<Rightarrow> False
            | Some td \<Rightarrow> getFullYear td = getFullYear now)
         else True)"

text \<open>
  \<open>filteredTrips\<close>. \<open>new Date(trip.tripTimestamp)\<close> is the engine's reading of the
  timestamp in the host's zone: the argument \<open>dateOf\<close>. The clock is read once for each
  trip; a pass over the trips is taken to see one reading, \<open>now\<close>.
\<close>

definition filteredTrips ::
    "(string \<Rightarrow> jsdate) \<Rightarrow> localTime \<Rightarrow> TripRecord list \<Rightarrow> FilterState \<Rightarrow> TripRecord list" where
  "filteredTrips dateOf now trips filters =
     filter (\<lambda>trip.
       (let tripDate = dateOf (tripTimestamp trip)
        in if \<not> isInPeriod now tripDate (period filters) then False
           else if department filters \<noteq> [] \<and> userDepartment trip \<noteq> department filters
           then False
           else if driverName filters \<noteq> [] \<and> userId trip \<noteq> driverName filters
           then False
           else if filter_carModel filters \<noteq> [] \<and> carModel trip \<noteq> filter_carModel filters
           then False
           else True)) trips"

text \<open>
  The windows that the filter is shown to implement, in calendar terms. A day is a
  proper calendar day when its month is 0 to 11 and its day of the month exists in that
  month. Two dates are on the same calendar day when year, month and day agree.
  \<open>prevDay\<close> is the calendar day before, at the same time of day, and \<open>startOfDay\<close> is
  local midnight. The window of a period: today is the same calendar day as now; the
  week runs from local midnight of the day seven calendar days before today up to now,
  both ends included, which is seven days and the part of today that has passed; the
  month is the same month of the same year; the year is the same year. An invalid date
  is in no window.
\<close>

definition validDay :: "localTime \<Rightarrow> bool" where
  "validDay t =
     (0 \<le> getMonth t \<and> getMonth t \<le> 11 \<and> 1 \<le> getDate t
      \<and> getDate t \<le> daysInMonth (getFullYear t) (getMonth t))"

definition sameDay :: "localTime \<Rightarrow> localTime \<Rightarrow> bool" where
  "sameDay a b =
     (getFullYear a = getFullYear b \<and> getMonth a = getMonth b \<and> getDate a = getDate b)"

definition prevDay :: "localTime \<Rightarrow> localTime" where
  "prevDay t =
     (if 1 < getDate t then t\<lparr>getDate := getDate t - 1\<rparr>
      else if getMonth t = 0
      then t\<lparr>getFullYear := getFullYear t - 1, getMonth := 11, getDate := 31\<rparr>
      else t\<lparr>getMonth := getMonth t - 1,
             getDate := daysInMonth (getFullYear t) (getMonth t - 1)\<rparr>)"

definition startOfDay :: "localTime \<Rightarrow> localTime" where
  "startOfDay t = t\<lparr>msOfDay := 0\<rparr>"

definition inWindow :: "localTime \<Rightarrow> string \<Rightarrow> jsdate \<Rightarrow> bool" where
  "inWindow now per tripDate =
     (case tripDate of
        None \<Rightarrow> False
      | Some td \<Rightarrow>
          if per = ''Today'' then sameDay td now
          else if per = ''Week''
          then timeLE ((prevDay ^^ 7) (startOfDay now)) td \<and> timeLE td now
          else if per = ''Month''
          then getMonth td = getMonth now \<and> getFullYear td = getFullYear now
          else getFullYear td = getFullYear now)"

text \<open>
  The week in the words of the spec, \<open>within the trailing 7 days through now\<close>: the trip
  is not later than now and not more than 7 times 24 hours earlier. Local time is
  counted in milliseconds from the start of the year 0: the days of the years before,
  the days of the earlier months of the year, the earlier days of the month, and the
  milliseconds of the day.
\<close>

definition daysBeforeYear :: "int \<Rightarrow> int" where
  "daysBeforeYear y = 365 * y + (y + 3) div 4 - (y + 99) div 100 + (y + 399) div 400"

definition yearLength :: "int \<Rightarrow> int" where
  "yearLength y = (if isLeapYear y then 366 else 365)"

definition daysBeforeMonth :: "int \<Rightarrow> int \<Rightarrow> int" where
  "daysBeforeMonth y m = sum_list (map (daysInMonth y) [0..m - 1])"

definition dayNumber :: "localTime \<Rightarrow> int" where
  "dayNumber t =
     daysBeforeYear (getFullYear t) + daysBeforeMonth (getFullYear t) (getMonth t)
       + (getDate t - 1)"

definition localMs :: "localTime \<Rightarrow> int" where
  "localMs t = dayNumber t * 86400000 + msOfDay t"

definition trailing7Days :: "localTime \<Rightarrow> jsdate \<Rightarrow> bool" where
  "trailing7Days now tripDate =
     (case tripDate of
        None \<Rightarrow> False
      | Some td \<Rightarrow> localMs now - 7 * 86400000 \<le> localMs td \<and> localMs td \<le> localMs now)"

definition matchesCriteria :: "FilterState \<Rightarrow> TripRecord \<Rightarrow> bool" where
  "matchesCriteria filters trip =
     ((department filters = [] \<or> userDepartment trip = department filters)
      \<and> (driverName filters = [] \<or> userId trip = driverName filters)
      \<and> (filter_carModel filters = [] \<or> carModel trip = filter_carModel filters))"

subsection \<open>Parsing the stored labels\<close>

definition parseDistance :: "string \<Rightarrow> number" where
  "parseDistance d = (let v = parseFloat d in if falsy v then Fin 0 else v)"

definition parseDuration :: "string \<Rightarrow> number" where
  "parseDuration d =
     (let hours = (case matchHours d of None \<Rightarrow> Fin 0 | Some m \<Rightarrow> parseInt m);
          minutes = (case matchMinutes d of None \<Rightarrow> Fin 0 | Some m \<Rightarrow> parseInt m)
      in num_mul (num_add (num_mul hours (Fin 60)) minutes) (Fin 60))"

definition parseCO2 :: "string \<Rightarrow> number" where
  "parseCO2 co2 =
     (case matchNumber co2 of
        Some m \<Rightarrow>
          (let v = parseFloat m
           in if includes_str co2 ''kg'' then v else num_div v (Fin 1000))
      | None \<Rightarrow> Fin 0)"

definition parseCost :: "string \<Rightarrow> number" where
  "parseCost c =
     (case matchNumber c of
        Some m \<Rightarrow>
          (let v = parseFloat m
           in if includes_str c ''$'' then num_mul v (Fin 23) else v)
      | None \<Rightarrow> Fin 0)"

definition getFuelConsumption :: "string \<Rightarrow> string \<Rightarrow> number" where
  "getFuelConsumption carModelName carEff =
     (case matchNumberL carEff of Some m \<Rightarrow> parseFloat m | None \<Rightarrow> Fin (65 / 10))"

subsection \<open>The metrics\<close>

record FleetMetrics =
  totalDistance :: number
  totalFuelLiters :: number
  avgFuelPer100km :: number
  totalDurationSeconds :: number
  totalCostCZK :: number
  totalCO2kg :: number
  avgCO2PerKm :: number
  avgSpeed :: number
  costPerKm :: number
  treesToOffset :: number
  carbonFootprintRating :: string
  fuelEfficiencyRating :: string
  emissionLevel :: string
  emissionColor :: "string option"

text \<open>
  The \<open>if\<close> chain that assigns \<open>emissionLevel\<close> and \<open>emissionColor\<close>, both starting from
  \<open>'No Data'\<close> and \<open>'gray'\<close>.
\<close>

definition emissionLevelAndColor :: "number \<Rightarrow> string \<times> string" where
  "emissionLevelAndColor avg =
     (let (level0, color0) = (''No Data'', ''gray'')
      in if num_le avg (Fin 50) then (''Excellent'', ''green'')
         else if num_le avg (Fin 100) then (''Good'', ''lightgreen'')
         else if num_le avg (Fin 150) then (''Moderate'', ''yellow'')
         else if num_le avg (Fin 200) then (''High'', ''orange'')
         else (''Very High'', ''red''))"

definition metrics :: "TripRecord list \<Rightarrow> FleetMetrics" where
  "metrics trips =
     (if length trips = 0 then
        \<lparr>totalDistance = Fin 0, totalFuelLiters = Fin 0, avgFuelPer100km = Fin 0,
         totalDurationSeconds = Fin 0, totalCostCZK = Fin 0, totalCO2kg = Fin 0,
         avgCO2PerKm = Fin 0, avgSpeed = Fin 0, costPerKm = Fin 0, treesToOffset = Fin 0,
         carbonFootprintRating = ''No Data'', fuelEfficiencyRating = ''No Data'',
         emissionLevel = ''No Data'', emissionColor = None\<rparr>
      else
        (let tDistance =
               foldl (\<lambda>sum trip. num_add sum (parseDistance (distance trip))) (Fin 0) trips;
             tDurationSeconds =
               foldl (\<lambda>sum trip. num_add sum (parseDuration (duration trip))) (Fin 0) trips;
             tCO2kg =
               foldl (\<lambda>sum trip. num_add sum (parseCO2 (co2Emissions trip))) (Fin 0) trips;
             tCostCZK =
               foldl (\<lambda>sum trip. num_add sum (parseCost (cost trip))) (Fin 0) trips;
             tFuelLiters =
               foldl (\<lambda>sum trip.
                        (let tripDistance = parseDistance (distance trip);
                             fuelPer100km =
                               getFuelConsumption (carModel trip) (carEfficiency trip)
                         in num_add sum (num_div (num_mul tripDistance fuelPer100km) (Fin 100))))
                     (Fin 0) trips;
             aFuelPer100km =
               (if num_gt tDistance (Fin 0)
                then num_mul (num_div tFuelLiters tDistance) (Fin 100) else Fin 0);
             aCO2PerKm =
               (if num_gt tDistance (Fin 0)
                then num_div (num_mul tCO2kg (Fin 1000)) tDistance else Fin 0);
             aSpeed =
               (if num_gt tDurationSeconds (Fin 0)
                then num_div tDistance (num_div tDurationSeconds (Fin 3600)) else Fin 0);
             cPerKm =
               (if num_gt tDistance (Fin 0) then num_div tCostCZK tDistance else Fin 0);
             trees = Math_ceil (num_div tCO2kg (Fin 21));
             cfRating =
               (if num_lt tCO2kg (Fin 100) then ''Low''
                else if num_lt tCO2kg (Fin 500) then ''Moderate'' else ''High'');
             feRating =
               (if num_le aFuelPer100km (Fin 6) then ''Good''
                else if num_le aFuelPer100km (Fin 8) then ''Moderate'' else ''Poor'');
             (eLevel, eColor) = emissionLevelAndColor aCO2PerKm
         in \<lparr>totalDistance = tDistance, totalFuelLiters = tFuelLiters,
             avgFuelPer100km = aFuelPer100km, totalDurationSeconds = tDurationSeconds,
             totalCostCZK = tCostCZK, totalCO2kg = tCO2kg, avgCO2PerKm = aCO2PerKm,
             avgSpeed = aSpeed, costPerKm = cPerKm, treesToOffset = trees,
             carbonFootprintRating = cfRating, fuelEfficiencyRating = feRating,
             emissionLevel = eLevel, emissionColor = Some eColor\<rparr>))"

text \<open>
  The page computes \<open>metrics\<close> from \<open>filteredTrips\<close>; \<open>aggregate\<close> is the two together.
\<close>

definition aggregate ::
    "(string \<Rightarrow> jsdate) \<Rightarrow> localTime \<Rightarrow> TripRecord list \<Rightarrow> FilterState \<Rightarrow> FleetMetrics" where
  "aggregate dateOf now trips filters = metrics (filteredTrips dateOf now trips filters)"

text \<open>The sum of a list of numbers, written as the spec's \<open>\<Sigma>\<close>: from the right, starting at 0.\<close>

definition sumNumbers :: "number list \<Rightarrow> number" where
  "sumNumbers xs = foldr num_add xs (Fin 0)"

subsection \<open>Sample data for the concrete checks\<close>

definition sampleTrip :: "string \<Rightarrow> string \<Rightarrow> string \<Rightarrow> string \<Rightarrow> string \<Rightarrow> TripRecord" where
  "sampleTrip dst dur co2 cst eff =
     \<lparr>userId = ''user1'', userDepartment = ''Sales'', userFuelType = ''Petrol'',
      userMarketSegment = ''Small car'', carBrand = ''Ford'', carModel = ''Fiesta'',
      carFuelType = ''Petrol'', carEfficiency = eff, distance = dst, duration = dur,
      co2Emissions = co2, transportType = ''By car'', cost = cst,
      startLocation = ''Praha'', destination = ''Brno'',
      scheduledDateTime = ''2025-05-31T07:00'',
      tripTimestamp = ''2025-05-31T07:00:08.085Z''\<rparr>"

definition sampleNow :: localTime where
  "sampleNow = \<lparr>getFullYear = 2025, getMonth = 5, getDate = 3, msOfDay = 46800000\<rparr>"

definition sampleDateOf :: "string \<Rightarrow> jsdate" where
  "sampleDateOf s =
     (if s = ''2025-05-31T07:00:08.085Z''
      then Some \<lparr>getFullYear = 2025, getMonth = 4, getDate = 31, msOfDay = 25208085\<rparr>
      else None)"

definition zeroTrip :: TripRecord where
  "zeroTrip = sampleTrip ''0'' [] ''0g'' ''0 CZK'' ''6.0L/100km''"

definition allTrips :: FilterState where
  "allTrips = \<lparr>period = ''Year'', department = [], driverName = [], filter_carModel = []\<rparr>"

definition co2Trip :: "string \<Rightarrow> TripRecord" where
  "co2Trip co2 = sampleTrip ''1'' ''1h'' co2 ''120 CZK'' ''6.0L/100km''"

definition negTrip :: TripRecord where
  "negTrip = sampleTrip ''-5'' ''1h'' ''1kg'' ''120 CZK'' ''6.0L/100km''"

definition stillTrip :: TripRecord where
  "stillTrip = sampleTrip ''0'' ''1h'' ''1kg'' ''120 CZK'' ''6.0L/100km''"

definition fiestaTrip :: TripRecord where
  "fiestaTrip = sampleTrip ''8.56'' ''21 min'' (''1.23'' @ kgCO2) ''265 CZK'' ''6.0L/100km''"

definition electricTrip :: TripRecord where
  "electricTrip = sampleTrip ''10'' ''15 min'' ''0g'' ''27 CZK'' ''18kWh/100km''"

definition polo :: Car where
  "polo = \<lparr>brand = ''Volkswagen'', model = ''Polo'', fuelType = ''Petrol'',
            efficiency = ''6.2L/100km''\<rparr>"

definition hydrogenCar :: Car where
  "hydrogenCar = \<lparr>brand = ''Toyota'', model = ''Mirai'', fuelType = ''Hydrogen'',
                   efficiency = ''0.8kg/100km''\<rparr>"

definition unratedCar :: Car where
  "unratedCar = \<lparr>brand = ''Ford'', model = ''Fiesta'', fuelType = ''Petrol'',
                  efficiency = ''n/a''\<rparr>"

text \<open>A car whose fuel type is the name of an inherited member.\<close>

definition kitCar :: Car where
  "kitCar = \<lparr>brand = ''Acme'', model = ''Kit'', fuelType = ''constructor'',
              efficiency = ''5L/100km''\<rparr>"

definition garage :: "Car list" where
  "garage = [polo, hydrogenCar, unratedCar]"

definition carTrip :: "string \<Rightarrow> Trip" where
  "carTrip name = \<lparr>trip_carModel = name, trip_distance = Inr (Fin 12)\<rparr>"

definition poloTrip :: "string \<Rightarrow> Trip" where
  "poloTrip d = \<lparr>trip_carModel = ''volkswagen polo'', trip_distance = Inl d\<rparr>"

text \<open>
  Three properties of the function \<open>Object\<close>, which is what \<open>constructor\<close> names on every
  object, as the language standard has them: \<open>length\<close> is 1, \<open>name\<close> is a text that is no
  numeral, and reading \<open>caller\<close> throws; other names are left \<open>undefined\<close> here.
\<close>

definition sampleMember :: "string \<Rightarrow> string \<Rightarrow> error + number option" where
  "sampleMember k name =
     (if k = ''constructor'' \<and> name = ''length'' then Inr (Some (Fin 1))
      else if k = ''constructor'' \<and> name = ''name'' then Inr (Some NaN)
      else if k = ''constructor'' \<and> name = ''caller'' then Inl TypeError
      else Inr None)"

definition oddLabelTrip :: TripRecord where
  "oddLabelTrip = sampleTrip ''100'' ''1h'' ''1kg'' ''120 CZK'' ''x7.5L/100km''"

definition tripAt :: "string \<Rightarrow> TripRecord" where
  "tripAt ts = zeroTrip\<lparr>tripTimestamp := ts\<rparr>"

text \<open>
  What \<open>new Date\<close> gives for four timestamps in a host on UTC; the last is not a date.
\<close>

definition clockOf :: "string \<Rightarrow> jsdate" where
  "clockOf ts =
     (if ts = ''2025-05-27T00:30:00.000Z''
      then Some \<lparr>getFullYear = 2025, getMonth = 4, getDate = 27, msOfDay = 1800000\<rparr>
      else if ts = ''2025-05-26T23:59:59.999Z''
      then Some \<lparr>getFullYear = 2025, getMonth = 4, getDate = 26, msOfDay = 86399999\<rparr>
      else if ts = ''2025-06-03T07:00:00.000Z''
      then Some \<lparr>getFullYear = 2025, getMonth = 5, getDate = 3, msOfDay = 25200000\<rparr>
      else None)"

definition loggedTrips :: "TripRecord list" where
  "loggedTrips =
     [tripAt ''2025-05-27T00:30:00.000Z'', tripAt ''2025-05-26T23:59:59.999Z'',
      tripAt ''2025-06-03T07:00:00.000Z'', tripAt ''yesterday'']"

definition criteria :: "string \<Rightarrow> string \<Rightarrow> FilterState" where
  "criteria per dept =
     \<lparr>period = per, department = dept, driverName = [], filter_carModel = []\<rparr>"

section \<open>Properties\<close>

subsection \<open>Public transport fare\<close>

lemma numberToString_30: "numberToString render (Fin 30) = ''30''"
  by (simp add: numberToString_def signPrefix_def digits.simps)

lemma hasTrainService_rail: "hasTrainService [''BUS'', ''HEAVY_RAIL'']"
  by (simp add: hasTrainService_def toLowerCase_def lowerChar_def)

lemma hasTrainService_tram: "\<not> hasTrainService [''BUS'', ''TRAM'']"
  by (simp add: hasTrainService_def toLowerCase_def lowerChar_def)

text \<open>
  C2. When a vehicle kind names a train or rail service (its lower-cased name contains
  \<open>train\<close> or \<open>rail\<close>), the fare is \<open>Math.round(distance * 1.5)\<close> followed by \<open>CZK\<close>, whatever
  the duration; for 20 km that is \<open>30 CZK\<close>. Otherwise the fare depends on the duration
  alone: below 30 minutes \<open>30 CZK\<close>, from 30 to 90 minutes inclusive \<open>40 CZK\<close>, above 90
  minutes \<open>120 CZK\<close>; in particular 29, 30, 90 and 91 minutes give 30, 40, 40 and 120.
\<close>

theorem transit_fare:
  "(hasTrainService kinds \<longrightarrow>
      calculatePublicTransportCost render distanceKm dur kinds
        = numberToString render (Math_round (num_mul distanceKm (Fin (3 / 2)))) @ '' CZK''
      \<and> calculatePublicTransportCost render (Fin km) dur kinds
          = numberToString render (Fin (of_int (round (km * (3 / 2))))) @ '' CZK''
      \<and> calculatePublicTransportCost render (Fin 20) dur kinds = ''30 CZK'')
   \<and> (\<not> hasTrainService kinds \<longrightarrow>
        (num_lt dur (Fin 30) \<longrightarrow>
           calculatePublicTransportCost render distanceKm dur kinds = ''30 CZK'')
      \<and> (num_le (Fin 30) dur \<and> num_le dur (Fin 90) \<longrightarrow>
           calculatePublicTransportCost render distanceKm dur kinds = ''40 CZK'')
      \<and> (num_gt dur (Fin 90) \<longrightarrow>
           calculatePublicTransportCost render distanceKm dur kinds = ''120 CZK'')
      \<and> calculatePublicTransportCost render distanceKm (Fin 29) kinds = ''30 CZK''
      \<and> calculatePublicTransportCost render distanceKm (Fin 30) kinds = ''40 CZK''
      \<and> calculatePublicTransportCost render distanceKm (Fin 90) kinds = ''40 CZK''
      \<and> calculatePublicTransportCost render distanceKm (Fin 91) kinds = ''120 CZK'')"
proof (cases "hasTrainService kinds")
  case True
  then show ?thesis
    by (simp add: calculatePublicTransportCost_def numberToString_30 round_def)
next
  case False
  then show ?thesis
    by (cases dur) (simp_all add: calculatePublicTransportCost_def num_gt_def)
qed

theorem transit_fare_witness:
  "hasTrainService [''BUS'', ''HEAVY_RAIL'']
   \<and> calculatePublicTransportCost (\<lambda>q. []) (Fin 20) (Fin 45) [''BUS'', ''HEAVY_RAIL'']
       = ''30 CZK''
   \<and> \<not> hasTrainService [''BUS'', ''TRAM'']
   \<and> num_lt (Fin 12) (Fin 30)
   \<and> calculatePublicTransportCost (\<lambda>q. []) (Fin 20) (Fin 12) [''BUS'', ''TRAM'']
       = ''30 CZK''
   \<and> num_le (Fin 30) (Fin 45) \<and> num_le (Fin 45) (Fin 90)
   \<and> calculatePublicTransportCost (\<lambda>q. []) (Fin 20) (Fin 45) [''BUS'', ''TRAM'']
       = ''40 CZK''
   \<and> num_gt (Fin 100) (Fin 90)
   \<and> calculatePublicTransportCost (\<lambda>q. []) (Fin 20) (Fin 100) [''BUS'', ''TRAM'']
       = ''120 CZK''"
  using transit_fare [of "[''BUS'', ''HEAVY_RAIL'']" "\<lambda>q. []" "Fin 20" "Fin 45" 20]
        transit_fare [of "[''BUS'', ''TRAM'']" "\<lambda>q. []" "Fin 20" "Fin 12" 20]
        transit_fare [of "[''BUS'', ''TRAM'']" "\<lambda>q. []" "Fin 20" "Fin 45" 20]
        transit_fare [of "[''BUS'', ''TRAM'']" "\<lambda>q. []" "Fin 20" "Fin 100" 20]
        hasTrainService_rail hasTrainService_tram
  by (simp add: num_gt_def numberToString_30)

subsection \<open>The empty filtered set\<close>

lemma metrics_Nil:
  "metrics [] =
     \<lparr>totalDistance = Fin 0, totalFuelLiters = Fin 0, avgFuelPer100km = Fin 0,
      totalDurationSeconds = Fin 0, totalCostCZK = Fin 0, totalCO2kg = Fin 0,
      avgCO2PerKm = Fin 0, avgSpeed = Fin 0, costPerKm = Fin 0, treesToOffset = Fin 0,
      carbonFootprintRating = ''No Data'', fuelEfficiencyRating = ''No Data'',
      emissionLevel = ''No Data'', emissionColor = None\<rparr>"
  by (simp add: metrics_def)

lemma ratings_nonempty:
  assumes "trips \<noteq> []"
  shows "carbonFootprintRating (metrics trips) \<in> {''Low'', ''Moderate'', ''High''}"
    and "fuelEfficiencyRating (metrics trips) \<in> {''Good'', ''Moderate'', ''Poor''}"
    and "emissionLevel (metrics trips)
           \<in> {''Excellent'', ''Good'', ''Moderate'', ''High'', ''Very High''}"
  using assms
  by (simp_all add: metrics_def Let_def emissionLevelAndColor_def split: prod.splits)

text \<open>
  C3. When the filtered set is empty, every numeric metric of the result is 0 and each
  of the three ratings is the text \<open>No Data\<close>. When the filtered set is not empty, none
  of the three ratings is \<open>No Data\<close>, whatever the totals are, so the two states can be
  told apart.
\<close>

theorem empty_set_no_data:
  "(filteredTrips dateOf now trips filters = [] \<longrightarrow>
      aggregate dateOf now trips filters =
        \<lparr>totalDistance = Fin 0, totalFuelLiters = Fin 0, avgFuelPer100km = Fin 0,
         totalDurationSeconds = Fin 0, totalCostCZK = Fin 0, totalCO2kg = Fin 0,
         avgCO2PerKm = Fin 0, avgSpeed = Fin 0, costPerKm = Fin 0, treesToOffset = Fin 0,
         carbonFootprintRating = ''No Data'', fuelEfficiencyRating = ''No Data'',
         emissionLevel = ''No Data'', emissionColor = None\<rparr>)
   \<and> (filteredTrips dateOf now trips filters \<noteq> [] \<longrightarrow>
        carbonFootprintRating (aggregate dateOf now trips filters) \<noteq> ''No Data''
      \<and> fuelEfficiencyRating (aggregate dateOf now trips filters) \<noteq> ''No Data''
      \<and> emissionLevel (aggregate dateOf now trips filters) \<noteq> ''No Data'')"
proof (cases "filteredTrips dateOf now trips filters = []")
  case True
  then show ?thesis
    by (simp add: aggregate_def metrics_Nil)
next
  case False
  from ratings_nonempty [OF False] show ?thesis
    using False by (auto simp: aggregate_def)
qed

lemma zeroTrip_kept:
  "filteredTrips sampleDateOf sampleNow [zeroTrip] allTrips = [zeroTrip]"
  by (simp add: filteredTrips_def zeroTrip_def sampleTrip_def sampleDateOf_def sampleNow_def
        allTrips_def isInPeriod_def)

lemma zeroTrip_dropped:
  "filteredTrips (\<lambda>s. None) sampleNow [zeroTrip] allTrips = []"
  by (simp add: filteredTrips_def allTrips_def isInPeriod_def)

lemma zeroTrip_totals:
  "totalDistance (metrics [zeroTrip]) = Fin 0 \<and> totalFuelLiters (metrics [zeroTrip]) = Fin 0
   \<and> totalDurationSeconds (metrics [zeroTrip]) = Fin 0
   \<and> totalCostCZK (metrics [zeroTrip]) = Fin 0 \<and> totalCO2kg (metrics [zeroTrip]) = Fin 0"
  by code_simp

theorem empty_set_no_data_witness:
  "filteredTrips (\<lambda>s. None) sampleNow [zeroTrip] allTrips = []
   \<and> aggregate (\<lambda>s. None) sampleNow [zeroTrip] allTrips =
        \<lparr>totalDistance = Fin 0, totalFuelLiters = Fin 0, avgFuelPer100km = Fin 0,
         totalDurationSeconds = Fin 0, totalCostCZK = Fin 0, totalCO2kg = Fin 0,
         avgCO2PerKm = Fin 0, avgSpeed = Fin 0, costPerKm = Fin 0, treesToOffset = Fin 0,
         carbonFootprintRating = ''No Data'', fuelEfficiencyRating = ''No Data'',
         emissionLevel = ''No Data'', emissionColor = None\<rparr>
   \<and> filteredTrips sampleDateOf sampleNow [zeroTrip] allTrips \<noteq> []
   \<and> totalDistance (aggregate sampleDateOf sampleNow [zeroTrip] allTrips) = Fin 0
   \<and> totalFuelLiters (aggregate sampleDateOf sampleNow [zeroTrip] allTrips) = Fin 0
   \<and> totalDurationSeconds (aggregate sampleDateOf sampleNow [zeroTrip] allTrips) = Fin 0
   \<and> totalCostCZK (aggregate sampleDateOf sampleNow [zeroTrip] allTrips) = Fin 0
   \<and> totalCO2kg (aggregate sampleDateOf sampleNow [zeroTrip] allTrips) = Fin 0
   \<and> carbonFootprintRating (aggregate sampleDateOf sampleNow [zeroTrip] allTrips)
        \<noteq> ''No Data''
   \<and> fuelEfficiencyRating (aggregate sampleDateOf sampleNow [zeroTrip] allTrips)
        \<noteq> ''No Data''
   \<and> emissionLevel (aggregate sampleDateOf sampleNow [zeroTrip] allTrips) \<noteq> ''No Data''"
  using empty_set_no_data [of "\<lambda>s. None" sampleNow "[zeroTrip]" allTrips]
        empty_set_no_data [of sampleDateOf sampleNow "[zeroTrip]" allTrips]
        zeroTrip_totals
  by (simp add: zeroTrip_kept zeroTrip_dropped aggregate_def)

subsection \<open>Car trip emissions\<close>

lemma emissionFactors_cases:
  "emissionFactors seg = Some m \<Longrightarrow>
     seg \<in> {''Small car'', ''Medium car'', ''Large car'', ''Average car''}
     \<and> m ''Battery Electric Vehicle'' = Some (Fin 0)"
  by (auto simp: emissionFactors_def split: if_splits)

lemma toFixed1_zero: "toFixed1 render (Fin 0) = ''0.0''"
  by (simp add: toFixed1_def signPrefix_def digits.simps)

lemma calculateRealEmissions_unfold:
  "calculateRealEmissions member render ft seg d =
     (case getProperty emissionFactors seg of
        Missing \<Rightarrow> Inr ''N/A''
      | Own m \<Rightarrow>
          (case getProperty m ft of
             Missing \<Rightarrow> Inr ''N/A''
           | Own f \<Rightarrow> Inr (toFixed1 render (num_mul f d) @ kgCO2)
           | Inherited k \<Rightarrow> Inr (''NaN'' @ kgCO2))
      | Inherited k \<Rightarrow>
          (case member k ft of
             Inl e \<Rightarrow> Inl e
           | Inr None \<Rightarrow> Inr ''N/A''
           | Inr (Some f) \<Rightarrow> Inr (toFixed1 render (num_mul f d) @ kgCO2)))"
  by (simp add: calculateRealEmissions_def readFactor_def toNumber_def toFixed1_def Let_def
           split: property.splits sum.splits option.splits)

lemma toFixed1_samples:
  "toFixed1 (\<lambda>q. []) (Fin (25 / 2)) = ''12.5''"
  "toFixed1 render NaN = ''NaN''"
  by (simp_all add: toFixed1_def signPrefix_def digits.simps)

text \<open>
  C7, as stated, at three inputs. The fuel type \<open>toString\<close> is not a key of the entry of
  \<open>Small car\<close>, so the stated result is \<open>N/A\<close>; the code finds the inherited member, which
  is not \<open>undefined\<close>, and prints \<open>NaN\<close> in front of the unit. The market segment
  \<open>constructor\<close> is not a key of the table; the code finds the inherited function,
  whose \<open>length\<close> is 1, and prints 12.5 for 12.5 km. For \<open>Battery Electric Vehicle\<close> in
  \<open>Small car\<close> at an infinite distance the stated result is 0.0 in front of the unit;
  the product of 0 and infinity is \<open>NaN\<close>, which is what the code prints.
\<close>

theorem car_trip_emissions_counterexample:
  "map_option (\<lambda>m. m ''toString'') (emissionFactors ''Small car'') = Some None
   \<and> calculateRealEmissions sampleMember (\<lambda>q. []) ''toString'' ''Small car'' (Fin (25 / 2))
       = Inr (''NaN'' @ kgCO2)
   \<and> emissionFactors ''constructor'' = None
   \<and> calculateRealEmissions sampleMember (\<lambda>q. []) ''length'' ''constructor'' (Fin (25 / 2))
       = Inr (''12.5'' @ kgCO2)
   \<and> calculateRealEmissions sampleMember (\<lambda>q. []) ''Battery Electric Vehicle'' ''Small car'' PInf
       = Inr (''NaN'' @ kgCO2)"
  by (simp add: calculateRealEmissions_unfold getProperty_def emissionFactors_def
                objectPrototypeNames_def sampleMember_def toFixed1_samples)

text \<open>
  C7, amended. When the market segment is neither a key of the factor table nor the name
  of an inherited member, or the fuel type is neither a key of that segment's entry nor
  such a name, \<open>calculateRealEmissions\<close> returns \<open>N/A\<close>. For a key of the table and a key
  of its entry it returns the factor times the distance, printed with one decimal and
  followed by \<open>kg CO\<close> and the subscript two: below \<open>10^21\<close> the printed digits are the
  nearest number of tenths, so what is printed is within 0.05 of the product. Every
  segment of the table has the factor 0 for \<open>Battery Electric Vehicle\<close>, so for that
  fuel type, any segment of the table and any finite distance the result is
  \<open>0.0kg CO\<close> with the subscript two.
\<close>

theorem car_trip_emissions:
  "(emissionFactors seg = None \<and> seg \<notin> set objectPrototypeNames \<longrightarrow>
      calculateRealEmissions member render ft seg d = Inr ''N/A'')
   \<and> (\<forall>m. emissionFactors seg = Some m \<and> m ft = None \<and> ft \<notin> set objectPrototypeNames \<longrightarrow>
          calculateRealEmissions member render ft seg d = Inr ''N/A'')
   \<and> (\<forall>m f. emissionFactors seg = Some m \<and> m ft = Some f \<longrightarrow>
          calculateRealEmissions member render ft seg d
            = Inr (toFixed1 render (num_mul f d) @ kgCO2))
   \<and> (\<forall>m. emissionFactors seg = Some m \<longrightarrow> m ''Battery Electric Vehicle'' = Some (Fin 0))
   \<and> (seg \<in> dom emissionFactors \<longrightarrow>
        calculateRealEmissions member render ''Battery Electric Vehicle'' seg (Fin km)
          = Inr (''0.0'' @ kgCO2))
   \<and> (\<forall>m f x. emissionFactors seg = Some m \<and> m ft = Some f \<and> num_mul f d = Fin x
          \<and> \<bar>x\<bar> < 10 ^ 21 \<longrightarrow>
          calculateRealEmissions member render ft seg d
            = Inr (signPrefix x @ digits (nat (round (\<bar>x\<bar> * 10)) div 10) @ ''.''
                @ digits (nat (round (\<bar>x\<bar> * 10)) mod 10) @ kgCO2)
          \<and> \<bar>real (nat (round (\<bar>x\<bar> * 10))) / 10 - \<bar>x\<bar>\<bar> \<le> 1 / 20)"
proof -
  have tenth: "\<bar>real (nat (round (\<bar>x\<bar> * 10))) / 10 - \<bar>x\<bar>\<bar> \<le> 1 / 20" for x :: real
  proof -
    have "0 \<le> round (\<bar>x\<bar> * 10)" by (simp add: round_def)
    then have "real (nat (round (\<bar>x\<bar> * 10))) = of_int (round (\<bar>x\<bar> * 10))" by simp
    moreover have "\<bar>of_int (round (\<bar>x\<bar> * 10)) - \<bar>x\<bar> * 10\<bar> \<le> 1 / 2"
      by (rule of_int_round_abs_le)
    ultimately show ?thesis by linarith
  qed
  have fixed: "toFixed1 render (Fin x)
                 = signPrefix x @ digits (nat (round (\<bar>x\<bar> * 10)) div 10) @ ''.''
                     @ digits (nat (round (\<bar>x\<bar> * 10)) mod 10)"
    if "\<bar>x\<bar> < 10 ^ 21" for x
    using that by (simp add: toFixed1_def round_def Let_def)
  show ?thesis
    using emissionFactors_cases [of seg] tenth fixed
    by (auto simp: calculateRealEmissions_unfold getProperty_def toFixed1_zero)
qed

text \<open>
  What the code does at the names of inherited members, which the amended statement
  leaves out: an inherited name as fuel type prints \<open>NaN\<close>, and an inherited name as
  market segment gives whatever that member has under the fuel type's name.
\<close>

lemma calculateRealEmissions_inherited:
  "(emissionFactors seg = Some m \<and> m ft = None \<and> ft \<in> set objectPrototypeNames \<longrightarrow>
      calculateRealEmissions member render ft seg d = Inr (''NaN'' @ kgCO2))
   \<and> (emissionFactors seg = None \<and> seg \<in> set objectPrototypeNames \<longrightarrow>
        calculateRealEmissions member render ft seg d
          = (case member seg ft of
               Inl e \<Rightarrow> Inl e
             | Inr None \<Rightarrow> Inr ''N/A''
             | Inr (Some f) \<Rightarrow> Inr (toFixed1 render (num_mul f d) @ kgCO2)))"
  by (simp add: calculateRealEmissions_unfold getProperty_def)

lemma emissionFactors_samples:
  "emissionFactors ''Tiny car'' = None"
  "''Tiny car'' \<notin> set objectPrototypeNames"
  "''Hydrogen'' \<notin> set objectPrototypeNames"
  "\<exists>m. emissionFactors ''Small car'' = Some m \<and> m ''Hydrogen'' = None"
  "\<exists>m. emissionFactors ''Small car'' = Some m \<and> m ''Petrol'' = Some (Fin (1437 / 10000))"
  "''Large car'' \<in> dom emissionFactors"
  by (simp_all add: emissionFactors_def objectPrototypeNames_def)

lemma toFixed1_sample:
  "toFixed1 (\<lambda>q. []) (num_mul (Fin (1437 / 10000)) (Fin (25 / 2))) = ''1.8''"
  by (simp add: toFixed1_def signPrefix_def digits.simps)

theorem car_trip_emissions_witness:
  "emissionFactors ''Tiny car'' = None
   \<and> ''Tiny car'' \<notin> set objectPrototypeNames
   \<and> calculateRealEmissions sampleMember (\<lambda>q. []) ''Petrol'' ''Tiny car'' (Fin (25 / 2))
        = Inr ''N/A''
   \<and> (\<exists>m. emissionFactors ''Small car'' = Some m \<and> m ''Hydrogen'' = None)
   \<and> ''Hydrogen'' \<notin> set objectPrototypeNames
   \<and> calculateRealEmissions sampleMember (\<lambda>q. []) ''Hydrogen'' ''Small car'' (Fin (25 / 2))
        = Inr ''N/A''
   \<and> (\<exists>m. emissionFactors ''Small car'' = Some m \<and> m ''Petrol'' = Some (Fin (1437 / 10000)))
   \<and> calculateRealEmissions sampleMember (\<lambda>q. []) ''Petrol'' ''Small car'' (Fin (25 / 2))
        = Inr (''1.8'' @ kgCO2)
   \<and> ''Large car'' \<in> dom emissionFactors
   \<and> calculateRealEmissions sampleMember (\<lambda>q. []) ''Battery Electric Vehicle'' ''Large car''
        (Fin 98) = Inr (''0.0'' @ kgCO2)"
proof -
  note s = emissionFactors_samples
  have 1: "calculateRealEmissions sampleMember (\<lambda>q. []) ''Petrol'' ''Tiny car'' (Fin (25 / 2))
             = Inr ''N/A''"
    using car_trip_emissions [of "''Tiny car''" sampleMember "\<lambda>q. []" "''Petrol''"
                                 "Fin (25 / 2)"] s(1,2)
    by blast
  have 2: "calculateRealEmissions sampleMember (\<lambda>q. []) ''Hydrogen'' ''Small car''
             (Fin (25 / 2)) = Inr ''N/A''"
    using car_trip_emissions [of "''Small car''" sampleMember "\<lambda>q. []" "''Hydrogen''"
                                 "Fin (25 / 2)"] s(3,4)
    by blast
  have "calculateRealEmissions sampleMember (\<lambda>q. []) ''Petrol'' ''Small car'' (Fin (25 / 2))
          = Inr (toFixed1 (\<lambda>q. []) (num_mul (Fin (1437 / 10000)) (Fin (25 / 2))) @ kgCO2)"
    using car_trip_emissions [of "''Small car''" sampleMember "\<lambda>q. []" "''Petrol''"
                                 "Fin (25 / 2)"] s(5)
    by blast
  then have 3: "calculateRealEmissions sampleMember (\<lambda>q. []) ''Petrol'' ''Small car''
                  (Fin (25 / 2)) = Inr (''1.8'' @ kgCO2)"
    by (simp only: toFixed1_sample)
  have 4: "calculateRealEmissions sampleMember (\<lambda>q. []) ''Battery Electric Vehicle''
             ''Large car'' (Fin 98) = Inr (''0.0'' @ kgCO2)"
    using car_trip_emissions [of "''Large car''" sampleMember "\<lambda>q. []" "''Petrol''"
                                 "Fin 1" 98] s(6)
    by blast
  from 1 2 3 4 s show ?thesis by blast
qed

subsection \<open>Derived metrics and ratings\<close>

lemma metrics_nonempty:
  assumes "trips \<noteq> []"
  shows "avgFuelPer100km (metrics trips) =
           (if num_gt (totalDistance (metrics trips)) (Fin 0)
            then num_mul (num_div (totalFuelLiters (metrics trips))
                                  (totalDistance (metrics trips))) (Fin 100)
            else Fin 0)"
    and "avgCO2PerKm (metrics trips) =
           (if num_gt (totalDistance (metrics trips)) (Fin 0)
            then num_div (num_mul (totalCO2kg (metrics trips)) (Fin 1000))
                         (totalDistance (metrics trips))
            else Fin 0)"
    and "avgSpeed (metrics trips) =
           (if num_gt (totalDurationSeconds (metrics trips)) (Fin 0)
            then num_div (totalDistance (metrics trips))
                         (num_div (totalDurationSeconds (metrics trips)) (Fin 3600))
            else Fin 0)"
    and "costPerKm (metrics trips) =
           (if num_gt (totalDistance (metrics trips)) (Fin 0)
            then num_div (totalCostCZK (metrics trips)) (totalDistance (metrics trips))
            else Fin 0)"
    and "treesToOffset (metrics trips)
           = Math_ceil (num_div (totalCO2kg (metrics trips)) (Fin 21))"
    and "carbonFootprintRating (metrics trips) =
           (if num_lt (totalCO2kg (metrics trips)) (Fin 100) then ''Low''
            else if num_lt (totalCO2kg (metrics trips)) (Fin 500) then ''Moderate''
            else ''High'')"
    and "fuelEfficiencyRating (metrics trips) =
           (if num_le (avgFuelPer100km (metrics trips)) (Fin 6) then ''Good''
            else if num_le (avgFuelPer100km (metrics trips)) (Fin 8) then ''Moderate''
            else ''Poor'')"
    and "emissionLevel (metrics trips)
           = fst (emissionLevelAndColor (avgCO2PerKm (metrics trips)))"
  using assms
  by (simp_all add: metrics_def Let_def split: prod.splits)

text \<open>
  C4. For a non-empty filtered set: the carbon footprint rating is \<open>Low\<close> exactly when the
  total CO2 is below 100, \<open>Moderate\<close> exactly when it is at least 100 and below 500, and
  \<open>High\<close> otherwise; the fuel efficiency rating is \<open>Good\<close> exactly when the average fuel
  per 100 km is at most 6, \<open>Moderate\<close> exactly when it is above 6 and at most 8, and \<open>Poor\<close>
  otherwise; the emission level is \<open>Excellent\<close>, \<open>Good\<close>, \<open>Moderate\<close>, \<open>High\<close> for an average CO2
  per km of at most 50, 100, 150, 200 (each above the bound before), and \<open>Very High\<close>
  otherwise. So 50 gives \<open>Excellent\<close>, 50.1 \<open>Good\<close>, 200 \<open>High\<close> and 200.1 \<open>Very High\<close>.
\<close>

theorem classification:
  assumes "trips \<noteq> []"
  shows "(carbonFootprintRating (metrics trips) = ''Low'' \<longleftrightarrow>
            num_lt (totalCO2kg (metrics trips)) (Fin 100))
       \<and> (carbonFootprintRating (metrics trips) = ''Moderate'' \<longleftrightarrow>
            num_le (Fin 100) (totalCO2kg (metrics trips))
            \<and> num_lt (totalCO2kg (metrics trips)) (Fin 500))
       \<and> (carbonFootprintRating (metrics trips) = ''High'' \<longleftrightarrow>
            \<not> num_lt (totalCO2kg (metrics trips)) (Fin 500))
       \<and> (fuelEfficiencyRating (metrics trips) = ''Good'' \<longleftrightarrow>
            num_le (avgFuelPer100km (metrics trips)) (Fin 6))
       \<and> (fuelEfficiencyRating (metrics trips) = ''Moderate'' \<longleftrightarrow>
            num_lt (Fin 6) (avgFuelPer100km (metrics trips))
            \<and> num_le (avgFuelPer100km (metrics trips)) (Fin 8))
       \<and> (fuelEfficiencyRating (metrics trips) = ''Poor'' \<longleftrightarrow>
            \<not> num_le (avgFuelPer100km (metrics trips)) (Fin 8))
       \<and> (emissionLevel (metrics trips) = ''Excellent'' \<longleftrightarrow>
            num_le (avgCO2PerKm (metrics trips)) (Fin 50))
       \<and> (emissionLevel (metrics trips) = ''Good'' \<longleftrightarrow>
            num_lt (Fin 50) (avgCO2PerKm (metrics trips))
            \<and> num_le (avgCO2PerKm (metrics trips)) (Fin 100))
       \<and> (emissionLevel (metrics trips) = ''Moderate'' \<longleftrightarrow>
            num_lt (Fin 100) (avgCO2PerKm (metrics trips))
            \<and> num_le (avgCO2PerKm (metrics trips)) (Fin 150))
       \<and> (emissionLevel (metrics trips) = ''High'' \<longleftrightarrow>
            num_lt (Fin 150) (avgCO2PerKm (metrics trips))
            \<and> num_le (avgCO2PerKm (metrics trips)) (Fin 200))
       \<and> (emissionLevel (metrics trips) = ''Very High'' \<longleftrightarrow>
            \<not> num_le (avgCO2PerKm (metrics trips)) (Fin 200))
       \<and> (avgCO2PerKm (metrics trips) = Fin 50 \<longrightarrow>
            emissionLevel (metrics trips) = ''Excellent'')
       \<and> (avgCO2PerKm (metrics trips) = Fin (501 / 10) \<longrightarrow>
            emissionLevel (metrics trips) = ''Good'')
       \<and> (avgCO2PerKm (metrics trips) = Fin 200 \<longrightarrow>
            emissionLevel (metrics trips) = ''High'')
       \<and> (avgCO2PerKm (metrics trips) = Fin (2001 / 10) \<longrightarrow>
            emissionLevel (metrics trips) = ''Very High'')"
proof -
  define c where "c = totalCO2kg (metrics trips)"
  define f where "f = avgFuelPer100km (metrics trips)"
  define e where "e = avgCO2PerKm (metrics trips)"
  have cf: "carbonFootprintRating (metrics trips) =
           (if num_lt c (Fin 100) then ''Low''
            else if num_lt c (Fin 500) then ''Moderate'' else ''High'')"
    unfolding c_def using metrics_nonempty(6) [OF assms] .
  have fe: "fuelEfficiencyRating (metrics trips) =
           (if num_le f (Fin 6) then ''Good''
            else if num_le f (Fin 8) then ''Moderate'' else ''Poor'')"
    unfolding f_def using metrics_nonempty(7) [OF assms] .
  have el: "emissionLevel (metrics trips) = fst (emissionLevelAndColor e)"
    unfolding e_def using metrics_nonempty(8) [OF assms] .
  have 1: "(carbonFootprintRating (metrics trips) = ''Low'' \<longleftrightarrow> num_lt c (Fin 100))
       \<and> (carbonFootprintRating (metrics trips) = ''Moderate'' \<longleftrightarrow>
            num_le (Fin 100) c \<and> num_lt c (Fin 500))
       \<and> (carbonFootprintRating (metrics trips) = ''High'' \<longleftrightarrow> \<not> num_lt c (Fin 500))"
    unfolding cf by (cases c) auto
  have 2: "(fuelEfficiencyRating (metrics trips) = ''Good'' \<longleftrightarrow> num_le f (Fin 6))
       \<and> (fuelEfficiencyRating (metrics trips) = ''Moderate'' \<longleftrightarrow>
            num_lt (Fin 6) f \<and> num_le f (Fin 8))
       \<and> (fuelEfficiencyRating (metrics trips) = ''Poor'' \<longleftrightarrow> \<not> num_le f (Fin 8))"
    unfolding fe by (cases f) auto
  have 3: "(emissionLevel (metrics trips) = ''Excellent'' \<longleftrightarrow> num_le e (Fin 50))
       \<and> (emissionLevel (metrics trips) = ''Good'' \<longleftrightarrow>
            num_lt (Fin 50) e \<and> num_le e (Fin 100))
       \<and> (emissionLevel (metrics trips) = ''Moderate'' \<longleftrightarrow>
            num_lt (Fin 100) e \<and> num_le e (Fin 150))
       \<and> (emissionLevel (metrics trips) = ''High'' \<longleftrightarrow>
            num_lt (Fin 150) e \<and> num_le e (Fin 200))
       \<and> (emissionLevel (metrics trips) = ''Very High'' \<longleftrightarrow> \<not> num_le e (Fin 200))"
    unfolding el by (cases e) (auto simp: emissionLevelAndColor_def)
  have 4: "(e = Fin 50 \<longrightarrow> emissionLevel (metrics trips) = ''Excellent'')
       \<and> (e = Fin (501 / 10) \<longrightarrow> emissionLevel (metrics trips) = ''Good'')
       \<and> (e = Fin 200 \<longrightarrow> emissionLevel (metrics trips) = ''High'')
       \<and> (e = Fin (2001 / 10) \<longrightarrow> emissionLevel (metrics trips) = ''Very High'')"
    unfolding el by (simp add: emissionLevelAndColor_def)
  from 1 2 3 4 show ?thesis
    unfolding c_def f_def e_def by blast
qed

lemma co2Trip_values:
  "avgCO2PerKm (metrics [co2Trip ''50g'']) = Fin 50"
  "avgCO2PerKm (metrics [co2Trip ''50.1g'']) = Fin (501 / 10)"
  "avgCO2PerKm (metrics [co2Trip ''200g'']) = Fin 200"
  "avgCO2PerKm (metrics [co2Trip ''200.1g'']) = Fin (2001 / 10)"
  "totalCO2kg (metrics [co2Trip ''50g'']) = Fin (1 / 20)"
  "avgFuelPer100km (metrics [co2Trip ''50g'']) = Fin 6"
  by code_simp+

theorem classification_witness:
  "[co2Trip ''50g''] \<noteq> []
   \<and> avgCO2PerKm (metrics [co2Trip ''50g'']) = Fin 50
   \<and> emissionLevel (metrics [co2Trip ''50g'']) = ''Excellent''
   \<and> avgCO2PerKm (metrics [co2Trip ''50.1g'']) = Fin (501 / 10)
   \<and> emissionLevel (metrics [co2Trip ''50.1g'']) = ''Good''
   \<and> avgCO2PerKm (metrics [co2Trip ''200g'']) = Fin 200
   \<and> emissionLevel (metrics [co2Trip ''200g'']) = ''High''
   \<and> avgCO2PerKm (metrics [co2Trip ''200.1g'']) = Fin (2001 / 10)
   \<and> emissionLevel (metrics [co2Trip ''200.1g'']) = ''Very High''
   \<and> totalCO2kg (metrics [co2Trip ''50g'']) = Fin (1 / 20)
   \<and> carbonFootprintRating (metrics [co2Trip ''50g'']) = ''Low''
   \<and> avgFuelPer100km (metrics [co2Trip ''50g'']) = Fin 6
   \<and> fuelEfficiencyRating (metrics [co2Trip ''50g'']) = ''Good''"
  using classification [of "[co2Trip ''50g'']"] classification [of "[co2Trip ''50.1g'']"]
        classification [of "[co2Trip ''200g'']"] classification [of "[co2Trip ''200.1g'']"]
  by (simp add: co2Trip_values)

text \<open>
  C5, as stated, at a trip whose distance label is \<open>-5\<close>: the total distance is -5 and
  the total CO2 is 1 kg, so the stated quotient \<open>totalCO2 * 1000 / totalDistance\<close> is -200,
  while the code returns 0 for the average CO2 per km; likewise the stated average fuel
  is 6 (the total distance is not 0) and the code returns 0.
\<close>

theorem derived_metrics_counterexample:
  "totalDistance (metrics [negTrip]) = Fin (- 5)
   \<and> totalCO2kg (metrics [negTrip]) = Fin 1
   \<and> avgCO2PerKm (metrics [negTrip]) = Fin 0
   \<and> num_div (num_mul (totalCO2kg (metrics [negTrip])) (Fin 1000))
              (totalDistance (metrics [negTrip])) = Fin (- 200)
   \<and> totalFuelLiters (metrics [negTrip]) = Fin (- 3 / 10)
   \<and> avgFuelPer100km (metrics [negTrip]) = Fin 0
   \<and> num_mul (num_div (totalFuelLiters (metrics [negTrip]))
                       (totalDistance (metrics [negTrip]))) (Fin 100) = Fin 6
   \<and> avgCO2PerKm (metrics [negTrip])
        \<noteq> num_div (num_mul (totalCO2kg (metrics [negTrip])) (Fin 1000))
                    (totalDistance (metrics [negTrip]))
   \<and> avgFuelPer100km (metrics [negTrip])
        \<noteq> num_mul (num_div (totalFuelLiters (metrics [negTrip]))
                            (totalDistance (metrics [negTrip]))) (Fin 100)"
  by code_simp

text \<open>
  C5, amended. For a non-empty filtered set each quotient is guarded by its divisor
  being above 0 and is 0 otherwise: the average fuel per 100 km is
  \<open>totalFuel / totalDistance * 100\<close>, the average CO2 per km is
  \<open>totalCO2 * 1000 / totalDistance\<close> and the cost per km is \<open>totalCost / totalDistance\<close>
  when the total distance is above 0; the average speed is
  \<open>totalDistance / (totalDurationSeconds / 3600)\<close> when the total duration is above 0; the
  trees to offset are the ceiling of \<open>totalCO2 / 21\<close>.
\<close>

theorem derived_metrics:
  assumes "trips \<noteq> []"
  shows "avgFuelPer100km (metrics trips) =
           (if num_gt (totalDistance (metrics trips)) (Fin 0)
            then num_mul (num_div (totalFuelLiters (metrics trips))
                                  (totalDistance (metrics trips))) (Fin 100)
            else Fin 0)
       \<and> avgCO2PerKm (metrics trips) =
           (if num_gt (totalDistance (metrics trips)) (Fin 0)
            then num_div (num_mul (totalCO2kg (metrics trips)) (Fin 1000))
                         (totalDistance (metrics trips))
            else Fin 0)
       \<and> avgSpeed (metrics trips) =
           (if num_gt (totalDurationSeconds (metrics trips)) (Fin 0)
            then num_div (totalDistance (metrics trips))
                         (num_div (totalDurationSeconds (metrics trips)) (Fin 3600))
            else Fin 0)
       \<and> costPerKm (metrics trips) =
           (if num_gt (totalDistance (metrics trips)) (Fin 0)
            then num_div (totalCostCZK (metrics trips)) (totalDistance (metrics trips))
            else Fin 0)
       \<and> treesToOffset (metrics trips)
           = Math_ceil (num_div (totalCO2kg (metrics trips)) (Fin 21))
       \<and> (\<forall>d f c s k.
            totalDistance (metrics trips) = Fin d \<and> 0 < d
            \<and> totalFuelLiters (metrics trips) = Fin f \<and> totalCO2kg (metrics trips) = Fin c
            \<and> totalDurationSeconds (metrics trips) = Fin s \<and> 0 < s
            \<and> totalCostCZK (metrics trips) = Fin k \<longrightarrow>
            avgFuelPer100km (metrics trips) = Fin (f / d * 100)
            \<and> avgCO2PerKm (metrics trips) = Fin (c * 1000 / d)
            \<and> avgSpeed (metrics trips) = Fin (d / (s / 3600))
            \<and> costPerKm (metrics trips) = Fin (k / d)
            \<and> treesToOffset (metrics trips) = Fin (of_int \<lceil>c / 21\<rceil>))"
  using metrics_nonempty(1-5) [OF assms]
  by (simp add: num_gt_def)

lemma fiestaTrip_totals:
  "totalDistance (metrics [fiestaTrip]) = Fin (856 / 100)"
  "totalFuelLiters (metrics [fiestaTrip]) = Fin (5136 / 10000)"
  "totalDurationSeconds (metrics [fiestaTrip]) = Fin 1260"
  "totalCostCZK (metrics [fiestaTrip]) = Fin 265"
  "totalCO2kg (metrics [fiestaTrip]) = Fin (123 / 100)"
  by code_simp+

theorem derived_metrics_witness:
  "[fiestaTrip] \<noteq> []
   \<and> totalDistance (metrics [fiestaTrip]) = Fin (856 / 100)
   \<and> totalFuelLiters (metrics [fiestaTrip]) = Fin (5136 / 10000)
   \<and> totalDurationSeconds (metrics [fiestaTrip]) = Fin 1260
   \<and> totalCostCZK (metrics [fiestaTrip]) = Fin 265
   \<and> totalCO2kg (metrics [fiestaTrip]) = Fin (123 / 100)
   \<and> avgFuelPer100km (metrics [fiestaTrip]) = Fin 6
   \<and> avgCO2PerKm (metrics [fiestaTrip]) = Fin (123000 / 856)
   \<and> avgSpeed (metrics [fiestaTrip]) = Fin (856 * 36 / 1260)
   \<and> costPerKm (metrics [fiestaTrip]) = Fin (26500 / 856)
   \<and> treesToOffset (metrics [fiestaTrip]) = Fin 1
   \<and> avgCO2PerKm (metrics [negTrip]) = Fin 0"
proof -
  have ne: "[fiestaTrip] \<noteq> []" "[negTrip] \<noteq> []" by simp_all
  have neg: "totalDistance (metrics [negTrip]) = Fin (- 5)" by code_simp
  from derived_metrics [OF ne(1)] derived_metrics [OF ne(2)] show ?thesis
    by (simp add: fiestaTrip_totals neg num_gt_def)
qed

subsection \<open>Total fuel\<close>

lemma num_add_assoc: "num_add (num_add a b) c = num_add a (num_add b c)"
  by (cases a; cases b; cases c) simp_all

lemma num_add_zero [simp]: "num_add a (Fin 0) = a" "num_add (Fin 0) a = a"
  by (cases a; simp)+

lemma foldl_num_add:
  "foldl (\<lambda>sum t. num_add sum (g t)) a xs = num_add a (sumNumbers (map g xs))"
proof (induction xs arbitrary: a)
  case Nil
  show ?case by (simp add: sumNumbers_def)
next
  case (Cons x xs)
  have "foldl (\<lambda>sum t. num_add sum (g t)) a (x # xs)
          = num_add (num_add a (g x)) (sumNumbers (map g xs))"
    using Cons.IH [of "num_add a (g x)"] by simp
  also have "\<dots> = num_add a (sumNumbers (map g (x # xs)))"
    by (simp add: num_add_assoc sumNumbers_def)
  finally show ?case .
qed

lemma firstRun_skip:
  "(\<forall>c\<in>set pre. \<not> cls c) \<Longrightarrow> firstRun cls fo (pre @ s) = firstRun cls fo s"
  by (induction pre) simp_all

lemma firstRun_none: "(\<forall>c\<in>set s. \<not> cls c) \<Longrightarrow> firstRun cls fo s = None"
  using firstRun_skip [of s cls fo "[]"] by simp

lemma firstRun_run:
  assumes "r \<noteq> []" and "\<forall>c\<in>set r. cls c" and "rest = [] \<or> \<not> cls (hd rest)"
  shows "firstRun cls fo (r @ rest) = (if fo rest then Some r else firstRun cls fo rest)"
proof -
  from assms(1) obtain c r' where r: "r = c # r'" by (cases r) auto
  from assms(2) r have c: "cls c" and r': "\<forall>x\<in>set r'. cls x" by auto
  from assms(3) have d: "dropWhile cls rest = rest" and t: "takeWhile cls rest = []"
    by (auto simp: dropWhile_eq_self_iff takeWhile_eq_Nil_iff)
  from r' have "dropWhile cls (r' @ rest) = rest" "takeWhile cls (r' @ rest) = r'"
    by (simp_all add: d t)
  with c r show ?thesis by simp
qed

lemma firstRun_decomp:
  "firstRun cls fo s = Some r \<Longrightarrow>
     \<exists>pre rest. s = pre @ r @ rest \<and> r \<noteq> [] \<and> (\<forall>c\<in>set r. cls c) \<and> fo rest"
proof (induction cls fo s rule: firstRun.induct)
  case (1 cls fo)
  then show ?case by simp
next
  case (2 cls fo c cs)
  show ?case
  proof (cases "cls c")
    case False
    with 2 obtain pre rest where "cs = pre @ r @ rest" "r \<noteq> []" "\<forall>c\<in>set r. cls c" "fo rest"
      by auto
    then have "c # cs = (c # pre) @ r @ rest" by simp
    with \<open>r \<noteq> []\<close> \<open>\<forall>c\<in>set r. cls c\<close> \<open>fo rest\<close> show ?thesis by blast
  next
    case True
    show ?thesis
    proof (cases "fo (dropWhile cls cs)")
      case fo: True
      with True "2.prems" have r: "r = c # takeWhile cls cs" by simp
      have "c # cs = [] @ r @ dropWhile cls cs" by (simp add: r)
      moreover have "\<forall>x\<in>set r. cls x" using True r by (auto dest: set_takeWhileD)
      ultimately show ?thesis using fo r by blast
    next
      case nfo: False
      with True 2 obtain pre rest where
        "dropWhile cls cs = pre @ r @ rest" "r \<noteq> []" "\<forall>c\<in>set r. cls c" "fo rest"
        by auto
      then have "c # cs = (c # takeWhile cls cs @ pre) @ r @ rest"
        by (metis append_Cons append_assoc takeWhile_dropWhile_id)
      with \<open>r \<noteq> []\<close> \<open>\<forall>c\<in>set r. cls c\<close> \<open>fo rest\<close> show ?thesis by blast
    qed
  qed
qed

lemma startsWith_L: "startsWith s ''L'' \<longleftrightarrow> (\<exists>t. s = CHR ''L'' # t)"
  by (cases s) auto

lemma not_numChar_L: "\<not> numChar CHR ''L''"
  by (simp add: numChar_def isDigit_def)

lemma matchNumberL_leading:
  assumes "r \<noteq> []" and "\<forall>c\<in>set r. numChar c"
  shows "matchNumberL (r @ ''L'' @ rest) = Some r"
  using firstRun_run [OF assms, of "''L'' @ rest" "\<lambda>rest. startsWith rest ''L''"]
  by (simp add: matchNumberL_def not_numChar_L)

lemma matchNumberL_none:
  assumes "\<nexists>pre c rest. eff = pre @ [c] @ ''L'' @ rest \<and> numChar c"
  shows "matchNumberL eff = None"
proof (cases "matchNumberL eff")
  case None
  then show ?thesis .
next
  case (Some r)
  from firstRun_decomp [OF Some [unfolded matchNumberL_def]]
  obtain pre rest where d: "eff = pre @ r @ rest" "r \<noteq> []" "\<forall>c\<in>set r. numChar c"
      "startsWith rest ''L''"
    by blast
  from d(4) obtain t where t: "rest = CHR ''L'' # t" by (auto simp: startsWith_L)
  from d(2) have r: "r = butlast r @ [last r]" by simp
  have "eff = (pre @ butlast r) @ [last r] @ ''L'' @ t"
    using d(1) t r by (metis append_Cons append_Nil append_assoc)
  moreover have "numChar (last r)" using d(2,3) by simp
  ultimately show ?thesis using assms by blast
qed

lemma firstRun_before_marker:
  assumes "\<nexists>p c q. pre = p @ [c] @ ''L'' @ q \<and> numChar c"
      and "pre = [] \<or> \<not> numChar (last pre)"
      and "s \<noteq> []" and "numChar (hd s)"
  shows "firstRun numChar (\<lambda>rest. startsWith rest ''L'') (pre @ s)
           = firstRun numChar (\<lambda>rest. startsWith rest ''L'') s"
  using assms(1,2)
proof (induction pre rule: length_induct)
  case (1 pre)
  show ?case
  proof (cases pre)
    case Nil
    then show ?thesis by simp
  next
    case (Cons c cs)
    show ?thesis
    proof (cases "numChar c")
      case False
      have nm: "\<nexists>p c' q. cs = p @ [c'] @ ''L'' @ q \<and> numChar c'"
      proof
        assume "\<exists>p c' q. cs = p @ [c'] @ ''L'' @ q \<and> numChar c'"
        then obtain p c' q where "cs = p @ [c'] @ ''L'' @ q" "numChar c'" by blast
        then have "pre = (c # p) @ [c'] @ ''L'' @ q \<and> numChar c'" using Cons by simp
        with "1.prems"(1) show False by blast
      qed
      have lst: "cs = [] \<or> \<not> numChar (last cs)"
        using "1.prems"(2) Cons by (cases cs) auto
      have "length cs < length pre" using Cons by simp
      with "1.IH" nm lst
      have "firstRun numChar (\<lambda>rest. startsWith rest ''L'') (cs @ s)
              = firstRun numChar (\<lambda>rest. startsWith rest ''L'') s"
        by blast
      with False Cons show ?thesis by simp
    next
      case True
      define tk where "tk = takeWhile numChar cs"
      define dr where "dr = dropWhile numChar cs"
      have cs: "cs = tk @ dr" by (simp add: tk_def dr_def)
      have tk: "\<forall>x\<in>set tk. numChar x" by (auto simp: tk_def dest: set_takeWhileD)
      from "1.prems"(2) Cons True have last: "cs \<noteq> []" "\<not> numChar (last cs)"
        by (auto split: if_splits)
      then have ex: "\<exists>x\<in>set cs. \<not> numChar x" using last_in_set by blast
      then have dr_ne: "dr \<noteq> []" by (auto simp: dr_def)
      then have hd_dr: "\<not> numChar (hd dr)" unfolding dr_def by (rule hd_dropWhile)
      from ex have app: "dropWhile numChar (cs @ s) = dr @ s"
        by (auto simp: dr_def)
      have noL: "\<not> startsWith (dr @ s) ''L''"
      proof
        assume "startsWith (dr @ s) ''L''"
        with dr_ne obtain t where t: "dr = CHR ''L'' # t"
          by (cases dr) (auto simp: startsWith_L)
        have "c # tk \<noteq> []" by simp
        then have "c # tk = butlast (c # tk) @ [last (c # tk)]" by (rule append_butlast_last_id [symmetric])
        then have "pre = butlast (c # tk) @ [last (c # tk)] @ ''L'' @ t"
          using Cons cs t by (metis append_Cons append_Nil append_assoc)
        moreover have "numChar (last (c # tk))" using True tk by simp
        ultimately show False using "1.prems"(1) by blast
      qed
      have nm: "\<nexists>p c' q. dr = p @ [c'] @ ''L'' @ q \<and> numChar c'"
      proof
        assume "\<exists>p c' q. dr = p @ [c'] @ ''L'' @ q \<and> numChar c'"
        then obtain p c' q where "dr = p @ [c'] @ ''L'' @ q" "numChar c'" by blast
        then have "pre = (c # tk @ p) @ [c'] @ ''L'' @ q \<and> numChar c'"
          using Cons cs by simp
        with "1.prems"(1) show False by blast
      qed
      have lst: "dr = [] \<or> \<not> numChar (last dr)"
        using last dr_ne cs by (metis last_appendR)
      have "length dr < length pre" using Cons cs by simp
      with "1.IH" nm lst
      have "firstRun numChar (\<lambda>rest. startsWith rest ''L'') (dr @ s)
              = firstRun numChar (\<lambda>rest. startsWith rest ''L'') s"
        by blast
      with True Cons app noL show ?thesis by simp
    qed
  qed
qed

lemma matchNumberL_first:
  assumes "\<nexists>p c q. pre = p @ [c] @ ''L'' @ q \<and> numChar c"
      and "pre = [] \<or> \<not> numChar (last pre)"
      and "r \<noteq> []" and "\<forall>c\<in>set r. numChar c"
  shows "matchNumberL (pre @ r @ ''L'' @ rest) = Some r"
proof -
  have "r @ ''L'' @ rest \<noteq> []" "numChar (hd (r @ ''L'' @ rest))"
    using assms(3,4) by (cases r; simp)+
  from firstRun_before_marker [OF assms(1,2) this] matchNumberL_leading [OF assms(3,4), of rest]
  show ?thesis by (simp add: matchNumberL_def)
qed

text \<open>
  C9, as stated, at the label \<open>x7.5L/100km\<close>: no float leads it (\<open>parseFloat\<close> of the
  label is \<open>NaN\<close>), so the stated consumption is the fallback 6.5 and a trip of 100 km
  adds 6.5 litres; \<open>getFuelConsumption\<close> finds the 7.5 behind the \<open>x\<close>, and the total is
  7.5 litres.
\<close>

theorem total_fuel_counterexample:
  "parseFloat ''x7.5L/100km'' = NaN
   \<and> getFuelConsumption ''Fiesta'' ''x7.5L/100km'' = Fin (75 / 10)
   \<and> getFuelConsumption ''Fiesta'' ''x7.5L/100km'' \<noteq> Fin (65 / 10)
   \<and> parseDistance (distance oddLabelTrip) = Fin 100
   \<and> carEfficiency oddLabelTrip = ''x7.5L/100km''
   \<and> totalFuelLiters (metrics [oddLabelTrip]) = Fin (75 / 10)
   \<and> totalFuelLiters (metrics [oddLabelTrip]) \<noteq> Fin (65 / 10)"
  by code_simp

text \<open>
  C9, amended. The total fuel of the aggregate is the sum, over the trips of the filtered
  set, of that trip's distance times that trip's own consumption divided by 100. The
  consumption comes from the trip's efficiency label: the run that counts is the first
  run of digits and dots, anywhere in the label, that is directly followed by \<open>L\<close>, and
  when that run reads as the number \<open>v\<close> the consumption is \<open>v\<close>; this covers the label
  that starts with such a run. When nowhere in the label a digit or dot stands directly
  before an \<open>L\<close>, the consumption is 6.5.
\<close>

theorem total_fuel:
  "totalFuelLiters (metrics trips) =
     sumNumbers (map (\<lambda>trip. num_div (num_mul (parseDistance (distance trip))
                                            (getFuelConsumption (carModel trip)
                                                                (carEfficiency trip)))
                                   (Fin 100)) trips)
   \<and> (\<forall>r rest v. eff = r @ ''L'' @ rest \<and> r \<noteq> [] \<and> (\<forall>c\<in>set r. numChar c)
         \<and> parseFloat r = Fin v \<longrightarrow>
         getFuelConsumption name eff = Fin v)
   \<and> ((\<nexists>pre c rest. eff = pre @ [c] @ ''L'' @ rest \<and> numChar c) \<longrightarrow>
         getFuelConsumption name eff = Fin (65 / 10))
   \<and> (\<forall>pre r rest v.
         eff = pre @ r @ ''L'' @ rest
         \<and> (\<nexists>p c q. pre = p @ [c] @ ''L'' @ q \<and> numChar c)
         \<and> (pre = [] \<or> \<not> numChar (last pre))
         \<and> r \<noteq> [] \<and> (\<forall>c\<in>set r. numChar c)
         \<and> parseFloat r = Fin v \<longrightarrow>
         getFuelConsumption name eff = Fin v)"
proof -
  have 1: "totalFuelLiters (metrics trips) =
     sumNumbers (map (\<lambda>trip. num_div (num_mul (parseDistance (distance trip))
                                            (getFuelConsumption (carModel trip)
                                                                (carEfficiency trip)))
                                   (Fin 100)) trips)"
  proof (cases "trips = []")
    case True
    then show ?thesis by (simp add: metrics_def sumNumbers_def)
  next
    case False
    then show ?thesis
      by (simp add: metrics_def Let_def foldl_num_add split: prod.splits)
  qed
  have 2: "\<forall>r rest v. eff = r @ ''L'' @ rest \<and> r \<noteq> [] \<and> (\<forall>c\<in>set r. numChar c)
         \<and> parseFloat r = Fin v \<longrightarrow>
         getFuelConsumption name eff = Fin v"
    using matchNumberL_leading by (auto simp: getFuelConsumption_def)
  have 3: "(\<nexists>pre c rest. eff = pre @ [c] @ ''L'' @ rest \<and> numChar c) \<longrightarrow>
         getFuelConsumption name eff = Fin (65 / 10)"
    using matchNumberL_none [of eff] by (auto simp: getFuelConsumption_def)
  have 4: "getFuelConsumption name eff = Fin v"
    if "eff = pre @ r @ ''L'' @ rest"
       "\<nexists>p c q. pre = p @ [c] @ ''L'' @ q \<and> numChar c"
       "pre = [] \<or> \<not> numChar (last pre)" "r \<noteq> []" "\<forall>c\<in>set r. numChar c"
       "parseFloat r = Fin v"
    for pre r rest v
    using matchNumberL_first [OF that(2,3,4,5), of rest] that(1,6)
    by (simp add: getFuelConsumption_def)
  from 1 2 3 4 show ?thesis by blast
qed

text \<open>
  What the amended statement leaves out: a run that the pattern accepts and
  \<open>parseFloat\<close> cannot read, such as a lone dot, gives \<open>NaN\<close> and not the fallback, and
  the total with it.
\<close>

lemma getFuelConsumption_unreadable:
  "getFuelConsumption ''Fiesta'' ''.L/100km'' = NaN"
  by code_simp

lemma no_marker_kWh:
  "\<nexists>pre c rest. ''18kWh/100km'' = pre @ [c] @ ''L'' @ rest \<and> numChar c"
proof
  assume "\<exists>pre c rest. ''18kWh/100km'' = pre @ [c] @ ''L'' @ rest \<and> numChar c"
  then obtain pre c rest where eq: "''18kWh/100km'' = pre @ [c] @ ''L'' @ rest" by blast
  have "CHR ''L'' \<in> set ''18kWh/100km''"
    by (subst eq) simp
  then show False by simp
qed

lemma no_marker_x:
  "\<nexists>p c q. ''x'' = p @ [c] @ ''L'' @ q \<and> numChar c"
proof
  assume "\<exists>p c q. ''x'' = p @ [c] @ ''L'' @ q \<and> numChar c"
  then obtain p c q where eq: "''x'' = p @ [c] @ ''L'' @ q" by blast
  have "CHR ''L'' \<in> set ''x''"
    by (subst eq) simp
  then show False by simp
qed

lemma numChars_samples:
  "\<forall>c\<in>set ''6.0''. numChar c" "\<forall>c\<in>set ''7.5''. numChar c" "\<not> numChar (last ''x'')"
  by (simp_all add: numChar_def isDigit_def)

lemma parseFloat_runs:
  "parseFloat ''6.0'' = Fin 6" "parseFloat ''7.5'' = Fin (75 / 10)"
  by code_simp+

theorem total_fuel_witness:
  "totalFuelLiters (metrics [fiestaTrip, electricTrip]) = Fin (5136 / 10000 + 65 / 100)
   \<and> parseFloat ''6.0'' = Fin 6
   \<and> getFuelConsumption ''Fiesta'' ''6.0L/100km'' = Fin 6
   \<and> getFuelConsumption ''Model S'' ''18kWh/100km'' = Fin (65 / 10)
   \<and> parseFloat ''7.5'' = Fin (75 / 10)
   \<and> getFuelConsumption ''Fiesta'' ''x7.5L/100km'' = Fin (75 / 10)"
proof -
  have "totalFuelLiters (metrics [fiestaTrip, electricTrip]) =
     sumNumbers (map (\<lambda>trip. num_div (num_mul (parseDistance (distance trip))
                                            (getFuelConsumption (carModel trip)
                                                                (carEfficiency trip)))
                                   (Fin 100)) [fiestaTrip, electricTrip])"
    using total_fuel [of "[fiestaTrip, electricTrip]"] by blast
  also have "\<dots> = Fin (5136 / 10000 + 65 / 100)"
    by code_simp
  finally have 1: "totalFuelLiters (metrics [fiestaTrip, electricTrip])
                     = Fin (5136 / 10000 + 65 / 100)" .
  have "\<forall>r rest v. ''6.0L/100km'' = r @ ''L'' @ rest \<and> r \<noteq> [] \<and> (\<forall>c\<in>set r. numChar c)
         \<and> parseFloat r = Fin v \<longrightarrow>
         getFuelConsumption ''Fiesta'' ''6.0L/100km'' = Fin v"
    using total_fuel [of "[]" "''6.0L/100km''" "''Fiesta''"] by blast
  from this [rule_format, of "''6.0''" "''/100km''" 6]
  have 2: "getFuelConsumption ''Fiesta'' ''6.0L/100km'' = Fin 6"
    using numChars_samples(1) parseFloat_runs(1) by simp
  from total_fuel [of "[]" "''18kWh/100km''" "''Model S''"] no_marker_kWh
  have 3: "getFuelConsumption ''Model S'' ''18kWh/100km'' = Fin (65 / 10)"
    by blast
  have "\<forall>pre r rest v.
         ''x7.5L/100km'' = pre @ r @ ''L'' @ rest
         \<and> (\<nexists>p c q. pre = p @ [c] @ ''L'' @ q \<and> numChar c)
         \<and> (pre = [] \<or> \<not> numChar (last pre))
         \<and> r \<noteq> [] \<and> (\<forall>c\<in>set r. numChar c)
         \<and> parseFloat r = Fin v \<longrightarrow>
         getFuelConsumption ''Fiesta'' ''x7.5L/100km'' = Fin v"
    using total_fuel [of "[]" "''x7.5L/100km''" "''Fiesta''"] by blast
  from this [rule_format, of "''x''" "''7.5''" "''/100km''" "75 / 10"]
  have 4: "getFuelConsumption ''Fiesta'' ''x7.5L/100km'' = Fin (75 / 10)"
    using numChars_samples(2,3) parseFloat_runs(2) no_marker_x by simp
  from 1 2 3 4 parseFloat_runs show ?thesis by blast
qed

subsection \<open>Reading the CO2 label\<close>

lemma startsWith_iff: "startsWith s p \<longleftrightarrow> (\<exists>b. s = p @ b)"
  by (induction s p rule: startsWith.induct) auto

lemma includes_str_iff: "includes_str s p \<longleftrightarrow> (\<exists>a b. s = a @ p @ b)"
proof (induction s)
  case Nil
  then show ?case by auto
next
  case (Cons c cs)
  show ?case
  proof
    assume "includes_str (c # cs) p"
    then consider "startsWith (c # cs) p" | "includes_str cs p" by auto
    then show "\<exists>a b. c # cs = a @ p @ b"
    proof cases
      case 1
      then obtain b where "c # cs = [] @ p @ b" by (auto simp: startsWith_iff)
      then show ?thesis by blast
    next
      case 2
      with Cons obtain a b where "cs = a @ p @ b" by blast
      then have "c # cs = (c # a) @ p @ b" by simp
      then show ?thesis by blast
    qed
  next
    assume "\<exists>a b. c # cs = a @ p @ b"
    then obtain a b where ab: "c # cs = a @ p @ b" by blast
    show "includes_str (c # cs) p"
    proof (cases a)
      case Nil
      with ab have "startsWith (c # cs) p" by (auto simp: startsWith_iff)
      then show ?thesis by simp
    next
      case (Cons x a')
      with ab have "cs = a' @ p @ b" by simp
      with Cons.IH have "includes_str cs p" by blast
      then show ?thesis by simp
    qed
  qed
qed

text \<open>
  C10, as stated, at the label \<open>x5\<close>: it has no leading number (\<open>parseFloat\<close> of it is
  \<open>NaN\<close>), so the stated result is 0, but \<open>parseCO2\<close> finds the 5 behind the \<open>x\<close>
  and returns 0.005.
\<close>

theorem parseCO2_counterexample:
  "parseFloat ''x5'' = NaN \<and> parseCO2 ''x5'' = Fin (5 / 1000) \<and> parseCO2 ''x5'' \<noteq> Fin 0"
  by code_simp

text \<open>
  C10, amended. \<open>parseCO2\<close> looks at the first run of digits and dots anywhere in the
  label. A label without any digit or dot gives 0. When that run reads as the number
  \<open>v\<close>, the result is \<open>v\<close> if the label contains \<open>kg\<close> somewhere and \<open>v / 1000\<close> if it does
  not; so \<open>123\<close> is taken as grams and gives 0.123.
\<close>

theorem parseCO2_first_number:
  "((\<forall>c\<in>set s. \<not> numChar c) \<longrightarrow> parseCO2 s = Fin 0)
   \<and> (\<forall>pre r rest v.
         s = pre @ r @ rest \<and> (\<forall>c\<in>set pre. \<not> numChar c)
         \<and> r \<noteq> [] \<and> (\<forall>c\<in>set r. numChar c) \<and> (rest = [] \<or> \<not> numChar (hd rest))
         \<and> parseFloat r = Fin v \<longrightarrow>
         parseCO2 s = Fin (if \<exists>a b. s = a @ ''kg'' @ b then v else v / 1000))
   \<and> parseCO2 ''123'' = Fin (123 / 1000)"
proof -
  have 1: "(\<forall>c\<in>set s. \<not> numChar c) \<longrightarrow> parseCO2 s = Fin 0"
    by (simp add: parseCO2_def matchNumber_def firstRun_none)
  have 2: "parseCO2 s = Fin (if \<exists>a b. s = a @ ''kg'' @ b then v else v / 1000)"
    if "s = pre @ r @ rest" "\<forall>c\<in>set pre. \<not> numChar c" "r \<noteq> []" "\<forall>c\<in>set r. numChar c"
       "rest = [] \<or> \<not> numChar (hd rest)" "parseFloat r = Fin v" for pre r rest v
  proof -
    have "matchNumber s = Some r"
      using that(1) firstRun_skip [OF that(2)] firstRun_run [OF that(3,4,5)]
      by (simp add: matchNumber_def)
    then show ?thesis
      using that(6) by (simp add: parseCO2_def includes_str_iff)
  qed
  have 3: "parseCO2 ''123'' = Fin (123 / 1000)" by code_simp
  from 1 2 3 show ?thesis by blast
qed

lemma not_numChar_samples:
  "\<forall>c\<in>set ''N/A''. \<not> numChar c" "\<not> numChar (hd kgCO2)" "\<not> numChar (hd ''g'')"
  "\<forall>c\<in>set ''1.23''. numChar c" "\<forall>c\<in>set ''450''. numChar c"
  by (simp_all add: numChar_def isDigit_def kgCO2_def)

lemma parseFloat_samples:
  "parseFloat ''1.23'' = Fin (123 / 100)" "parseFloat ''450'' = Fin 450"
  by code_simp+

lemma kg_sample_in: "\<exists>a b. ''1.23'' @ kgCO2 = a @ ''kg'' @ b"
proof -
  have "includes_str (''1.23'' @ kgCO2) ''kg''" by (simp add: kgCO2_def)
  then show ?thesis by (rule iffD1 [OF includes_str_iff])
qed

lemma kg_sample_out: "\<nexists>a b. ''450g'' = a @ ''kg'' @ b"
proof
  assume "\<exists>a b. ''450g'' = a @ ''kg'' @ b"
  then have "includes_str ''450g'' ''kg''" by (rule iffD2 [OF includes_str_iff])
  then show False by simp
qed

theorem parseCO2_first_number_witness:
  "parseCO2 ''N/A'' = Fin 0
   \<and> parseFloat ''1.23'' = Fin (123 / 100)
   \<and> parseCO2 (''1.23'' @ kgCO2) = Fin (123 / 100)
   \<and> parseFloat ''450'' = Fin 450
   \<and> parseCO2 ''450g'' = Fin (450 / 1000)"
proof -
  have 1: "parseCO2 ''N/A'' = Fin 0"
    using parseCO2_first_number [of "''N/A''"] not_numChar_samples(1) by blast
  have "\<forall>pre r rest v.
         ''1.23'' @ kgCO2 = pre @ r @ rest \<and> (\<forall>c\<in>set pre. \<not> numChar c)
         \<and> r \<noteq> [] \<and> (\<forall>c\<in>set r. numChar c) \<and> (rest = [] \<or> \<not> numChar (hd rest))
         \<and> parseFloat r = Fin v \<longrightarrow>
         parseCO2 (''1.23'' @ kgCO2)
           = Fin (if \<exists>a b. ''1.23'' @ kgCO2 = a @ ''kg'' @ b then v else v / 1000)"
    using parseCO2_first_number [of "''1.23'' @ kgCO2"] by blast
  from this [rule_format, of "[]" "''1.23''" kgCO2 "123 / 100"]
  have 2: "parseCO2 (''1.23'' @ kgCO2) = Fin (123 / 100)"
    using not_numChar_samples parseFloat_samples kg_sample_in by simp
  have "\<forall>pre r rest v.
         ''450g'' = pre @ r @ rest \<and> (\<forall>c\<in>set pre. \<not> numChar c)
         \<and> r \<noteq> [] \<and> (\<forall>c\<in>set r. numChar c) \<and> (rest = [] \<or> \<not> numChar (hd rest))
         \<and> parseFloat r = Fin v \<longrightarrow>
         parseCO2 ''450g'' = Fin (if \<exists>a b. ''450g'' = a @ ''kg'' @ b then v else v / 1000)"
    using parseCO2_first_number [of "''450g''"] by blast
  from this [rule_format, of "[]" "''450''" "''g''" 450]
  have 3: "parseCO2 ''450g'' = Fin (450 / 1000)"
    using not_numChar_samples parseFloat_samples kg_sample_out by simp
  from 1 2 3 parseFloat_samples show ?thesis by blast
qed

subsection \<open>Car trip cost\<close>

lemma num_mul_NaN: "num_mul x NaN = NaN"
  by (cases x) simp_all

lemma getCarCost_unfold:
  "getCarCost trip cars prices =
     (if distanceKmOf trip = Fin 0 \<or> distanceKmOf trip = NaN then Fin 0
      else case findCar cars (trip_carModel trip) of
             None \<Rightarrow> Fin 0
           | Some car \<Rightarrow>
               if parseEfficiencyValue (efficiency car) = Fin 0
                  \<or> parseEfficiencyValue (efficiency car) = NaN then Fin 0
               else case getProperty prices (fuelType car) of
                      Missing \<Rightarrow> Fin 0
                    | Own p \<Rightarrow>
                        if p = Fin 0 \<or> p = NaN then Fin 0
                        else num_div (Math_round (num_mul
                               (num_mul (num_mul (distanceKmOf trip)
                                  (num_div (parseEfficiencyValue (efficiency car)) (Fin 100))) p)
                               (Fin 100))) (Fin 100)
                    | Inherited k \<Rightarrow> NaN)"
  by (auto simp: getCarCost_def distanceKmOf_def findCar_def falsy_def truthy_def
                 toNumber_def num_mul_NaN Let_def
           split: option.splits property.splits)

lemma getCarCost_finite:
  assumes "findCar cars (trip_carModel trip) = Some car"
      and "distanceKmOf trip = Fin d" and "d \<noteq> 0"
      and "parseEfficiencyValue (efficiency car) = Fin e" and "e \<noteq> 0"
      and "prices (fuelType car) = Some (Fin p)" and "p \<noteq> 0"
  shows "getCarCost trip cars prices = Fin (round2 (d * (e / 100) * p))"
  using assms by (simp add: getCarCost_unfold getProperty_def round2_def)

text \<open>
  What \<open>getCarCost\<close> does when the car's fuel type is not a key of the price table and
  is the name of an inherited member: the look-up gives that member, both guards let
  it through, and the cost is \<open>NaN\<close>.
\<close>

lemma getCarCost_inherited_name:
  assumes "findCar cars (trip_carModel trip) = Some car"
      and "distanceKmOf trip \<noteq> Fin 0" and "distanceKmOf trip \<noteq> NaN"
      and "parseEfficiencyValue (efficiency car) \<noteq> Fin 0"
      and "parseEfficiencyValue (efficiency car) \<noteq> NaN"
      and "prices (fuelType car) = None" and "fuelType car \<in> set objectPrototypeNames"
  shows "getCarCost trip cars prices = NaN"
  using assms by (simp add: getCarCost_unfold getProperty_def)

lemma calculateCarCost_guard:
  "num_le distanceKm (Fin 0) \<Longrightarrow>
     calculateCarCost render selectedCar carsDatabase distanceKm = ''N/A''"
  by (simp add: calculateCarCost_def split: option.splits)

text \<open>
  C1, as stated, at the distance \<open>-10\<close> for a petrol car of 6.2 l/100 km: the car is
  found, its fuel type is priced and its efficiency parses, and the distance is below
  0, so the stated result is the marker 0; \<open>getCarCost\<close> returns the computed cost
  -20.9.
\<close>

theorem getCarCost_counterexample:
  "findCar [polo] (trip_carModel (poloTrip ''-10'')) = Some polo
   \<and> czFuelPrices (fuelType polo) = Some (Fin (3371 / 100))
   \<and> parseEfficiencyValue (efficiency polo) = Fin (62 / 10)
   \<and> distanceKmOf (poloTrip ''-10'') = Fin (- 10)
   \<and> num_le (distanceKmOf (poloTrip ''-10'')) (Fin 0)
   \<and> getCarCost (poloTrip ''-10'') [polo] czFuelPrices = Fin (- 209 / 10)
   \<and> getCarCost (poloTrip ''-10'') [polo] czFuelPrices \<noteq> Fin 0"
  by code_simp

text \<open>
  C1, amended. \<open>getCarCost\<close> returns the marker 0 when the distance is 0 or not a number,
  when no car of the list matches, when the car's fuel type is neither a key of the
  price table nor the name of an inherited member, when its price in the table is 0 or
  not a number, and when the car's efficiency does not parse or is 0. In every other
  case with a price in the table it returns distance times efficiency / 100 times unit
  price, times 100, rounded, divided by 100; for finite numbers, a negative distance
  included, that is the product rounded to 2 decimals. The guard against a distance of 0
  or less is in the caller \<open>calculateCarCost\<close>, which then returns \<open>N/A\<close>.
\<close>

theorem getCarCost_contract:
  "(distanceKmOf trip = Fin 0 \<or> distanceKmOf trip = NaN \<longrightarrow>
      getCarCost trip cars prices = Fin 0)
   \<and> (findCar cars (trip_carModel trip) = None \<longrightarrow> getCarCost trip cars prices = Fin 0)
   \<and> (\<forall>car. findCar cars (trip_carModel trip) = Some car \<longrightarrow>
        (prices (fuelType car) = None \<and> fuelType car \<notin> set objectPrototypeNames \<longrightarrow>
           getCarCost trip cars prices = Fin 0)
      \<and> (prices (fuelType car) = Some (Fin 0) \<or> prices (fuelType car) = Some NaN \<longrightarrow>
           getCarCost trip cars prices = Fin 0)
      \<and> (parseEfficiencyValue (efficiency car) = NaN
           \<or> parseEfficiencyValue (efficiency car) = Fin 0 \<longrightarrow>
           getCarCost trip cars prices = Fin 0)
      \<and> (\<forall>p. prices (fuelType car) = Some p \<and> p \<noteq> Fin 0 \<and> p \<noteq> NaN
              \<and> distanceKmOf trip \<noteq> Fin 0 \<and> distanceKmOf trip \<noteq> NaN
              \<and> parseEfficiencyValue (efficiency car) \<noteq> Fin 0
              \<and> parseEfficiencyValue (efficiency car) \<noteq> NaN \<longrightarrow>
              getCarCost trip cars prices
                = num_div (Math_round (num_mul
                    (num_mul (num_mul (distanceKmOf trip)
                       (num_div (parseEfficiencyValue (efficiency car)) (Fin 100))) p)
                    (Fin 100))) (Fin 100))
      \<and> (\<forall>d e p. distanceKmOf trip = Fin d \<and> d \<noteq> 0
              \<and> parseEfficiencyValue (efficiency car) = Fin e
              \<and> prices (fuelType car) = Some (Fin p) \<longrightarrow>
              getCarCost trip cars prices = Fin (round2 (d * (e / 100) * p))))
   \<and> (num_le distanceKm (Fin 0) \<longrightarrow>
        calculateCarCost render selectedCar carsDatabase distanceKm = ''N/A'')"
proof -
  have fin: "getCarCost trip cars prices = Fin (round2 (d * (e / 100) * p))"
    if "findCar cars (trip_carModel trip) = Some car" "distanceKmOf trip = Fin d" "d \<noteq> 0"
       "parseEfficiencyValue (efficiency car) = Fin e"
       "prices (fuelType car) = Some (Fin p)" for car d e p
  proof (cases "e = 0 \<or> p = 0")
    case True
    then have "round2 (d * (e / 100) * p) = 0" by (auto simp: round2_def)
    with True that show ?thesis by (auto simp: getCarCost_unfold getProperty_def)
  next
    case False
    with that show ?thesis by (simp add: getCarCost_finite)
  qed
  show ?thesis
    using fin calculateCarCost_guard
    by (auto simp: getCarCost_unfold getProperty_def)
qed

lemma getCarCost_inherited_sample:
  "findCar [kitCar] (trip_carModel (carTrip ''Acme Kit'')) = Some kitCar
   \<and> czFuelPrices (fuelType kitCar) = None
   \<and> getCarCost (carTrip ''Acme Kit'') [kitCar] czFuelPrices = NaN"
  by code_simp

lemma garage_facts:
  "distanceKmOf (poloTrip ''0'') = Fin 0"
  "findCar garage (trip_carModel (carTrip ''Skoda Fabia'')) = None"
  "findCar garage (trip_carModel (carTrip ''Toyota Mirai'')) = Some hydrogenCar"
  "czFuelPrices (fuelType hydrogenCar) = None"
  "findCar garage (trip_carModel (carTrip ''ford fiesta'')) = Some unratedCar"
  "parseEfficiencyValue (efficiency unratedCar) = NaN"
  "findCar garage (trip_carModel (poloTrip ''10'')) = Some polo"
  "distanceKmOf (poloTrip ''10'') = Fin 10"
  "parseEfficiencyValue (efficiency polo) = Fin (62 / 10)"
  "czFuelPrices (fuelType polo) = Some (Fin (3371 / 100))"
  "findCar garage ''volkswagen polo'' = Some polo"
  "trip_carModel (poloTrip ''10'') = ''volkswagen polo''"
  "trip_carModel (poloTrip ''20'') = ''volkswagen polo''"
  "distanceKmOf (poloTrip ''20'') = Fin 20"
  by code_simp+

lemma garage_more_facts:
  "fuelType hydrogenCar \<notin> set objectPrototypeNames"
  "(czFuelPrices(''Petrol'' \<mapsto> Fin 0)) (fuelType polo) = Some (Fin 0)"
  "findCar garage (trip_carModel \<lparr>trip_carModel = ''volkswagen polo'',
                                    trip_distance = Inr PInf\<rparr>) = Some polo"
  "distanceKmOf \<lparr>trip_carModel = ''volkswagen polo'', trip_distance = Inr PInf\<rparr> = PInf"
  by (simp_all add: hydrogenCar_def polo_def objectPrototypeNames_def distanceKmOf_def
                    garage_facts(11))

lemma round2_samples:
  "round2 (10 * (62 / 10 / 100) * (3371 / 100)) = 209 / 10"
  "round2 (10 * (62 / 10 / 100 * (3371 / 100))) = 209 / 10"
  "round2 (20 * (62 / 10 / 100 * (3371 / 100))) = 418 / 10"
  by (simp_all add: round2_def)

theorem getCarCost_contract_witness:
  "distanceKmOf (poloTrip ''0'') = Fin 0
   \<and> getCarCost (poloTrip ''0'') garage czFuelPrices = Fin 0
   \<and> findCar garage (trip_carModel (carTrip ''Skoda Fabia'')) = None
   \<and> getCarCost (carTrip ''Skoda Fabia'') garage czFuelPrices = Fin 0
   \<and> findCar garage (trip_carModel (carTrip ''Toyota Mirai'')) = Some hydrogenCar
   \<and> czFuelPrices (fuelType hydrogenCar) = None
   \<and> fuelType hydrogenCar \<notin> set objectPrototypeNames
   \<and> getCarCost (carTrip ''Toyota Mirai'') garage czFuelPrices = Fin 0
   \<and> (czFuelPrices(''Petrol'' \<mapsto> Fin 0)) (fuelType polo) = Some (Fin 0)
   \<and> getCarCost (poloTrip ''10'') garage (czFuelPrices(''Petrol'' \<mapsto> Fin 0)) = Fin 0
   \<and> findCar garage (trip_carModel (carTrip ''ford fiesta'')) = Some unratedCar
   \<and> parseEfficiencyValue (efficiency unratedCar) = NaN
   \<and> getCarCost (carTrip ''ford fiesta'') garage czFuelPrices = Fin 0
   \<and> findCar garage (trip_carModel (poloTrip ''10'')) = Some polo
   \<and> distanceKmOf (poloTrip ''10'') = Fin 10
   \<and> parseEfficiencyValue (efficiency polo) = Fin (62 / 10)
   \<and> czFuelPrices (fuelType polo) = Some (Fin (3371 / 100))
   \<and> getCarCost (poloTrip ''10'') garage czFuelPrices = Fin (209 / 10)
   \<and> distanceKmOf \<lparr>trip_carModel = ''volkswagen polo'', trip_distance = Inr PInf\<rparr> = PInf
   \<and> getCarCost \<lparr>trip_carModel = ''volkswagen polo'', trip_distance = Inr PInf\<rparr>
        garage czFuelPrices = PInf
   \<and> num_le (Fin (- 10)) (Fin 0)
   \<and> calculateCarCost (\<lambda>q. []) (Some polo) garage (Fin (- 10)) = ''N/A''"
proof -
  have 1: "getCarCost (poloTrip ''0'') garage czFuelPrices = Fin 0"
    using getCarCost_contract [of "poloTrip ''0''" garage czFuelPrices] garage_facts(1)
    by blast
  have 2: "getCarCost (carTrip ''Skoda Fabia'') garage czFuelPrices = Fin 0"
    using getCarCost_contract [of "carTrip ''Skoda Fabia''" garage czFuelPrices]
          garage_facts(2)
    by blast
  have 3: "getCarCost (carTrip ''Toyota Mirai'') garage czFuelPrices = Fin 0"
    using getCarCost_contract [of "carTrip ''Toyota Mirai''" garage czFuelPrices]
          garage_facts(3,4) garage_more_facts(1)
    by blast
  have 4: "getCarCost (carTrip ''ford fiesta'') garage czFuelPrices = Fin 0"
    using getCarCost_contract [of "carTrip ''ford fiesta''" garage czFuelPrices]
          garage_facts(5,6)
    by blast
  have nz: "(10 :: real) \<noteq> 0" by simp
  have "\<forall>d e p. distanceKmOf (poloTrip ''10'') = Fin d \<and> d \<noteq> 0
              \<and> parseEfficiencyValue (efficiency polo) = Fin e
              \<and> czFuelPrices (fuelType polo) = Some (Fin p) \<longrightarrow>
              getCarCost (poloTrip ''10'') garage czFuelPrices
                = Fin (round2 (d * (e / 100) * p))"
    using getCarCost_contract [of "poloTrip ''10''" garage czFuelPrices] garage_facts(7)
    by blast
  from this [rule_format, of 10 "62 / 10" "3371 / 100"]
  have "getCarCost (poloTrip ''10'') garage czFuelPrices
          = Fin (round2 (10 * (62 / 10 / 100) * (3371 / 100)))"
    using garage_facts(8,9,10) nz by blast
  then have 5: "getCarCost (poloTrip ''10'') garage czFuelPrices = Fin (209 / 10)"
    by (simp only: round2_samples)
  have 6: "num_le (Fin (- 10)) (Fin 0)" by simp
  have 7: "calculateCarCost (\<lambda>q. []) (Some polo) garage (Fin (- 10)) = ''N/A''"
    using getCarCost_contract [of "poloTrip ''0''" garage czFuelPrices "Fin (- 10)"
                                  "\<lambda>q. []" "Some polo" garage] 6
    by blast
  have 8: "getCarCost (poloTrip ''10'') garage (czFuelPrices(''Petrol'' \<mapsto> Fin 0)) = Fin 0"
    using getCarCost_contract [of "poloTrip ''10''" garage "czFuelPrices(''Petrol'' \<mapsto> Fin 0)"]
          garage_facts(7) garage_more_facts(2)
    by blast
  let ?far = "\<lparr>trip_carModel = ''volkswagen polo'', trip_distance = Inr PInf\<rparr>"
  have "\<forall>p. czFuelPrices (fuelType polo) = Some p \<and> p \<noteq> Fin 0 \<and> p \<noteq> NaN
              \<and> distanceKmOf ?far \<noteq> Fin 0 \<and> distanceKmOf ?far \<noteq> NaN
              \<and> parseEfficiencyValue (efficiency polo) \<noteq> Fin 0
              \<and> parseEfficiencyValue (efficiency polo) \<noteq> NaN \<longrightarrow>
              getCarCost ?far garage czFuelPrices
                = num_div (Math_round (num_mul
                    (num_mul (num_mul (distanceKmOf ?far)
                       (num_div (parseEfficiencyValue (efficiency polo)) (Fin 100))) p)
                    (Fin 100))) (Fin 100)"
    using getCarCost_contract [of ?far garage czFuelPrices] garage_more_facts(3)
    by blast
  from this [rule_format, of "Fin (3371 / 100)"]
  have 9: "getCarCost ?far garage czFuelPrices = PInf"
    using garage_facts(9,10) garage_more_facts(4) by (simp add: signed_inf_def)
  from 1 2 3 4 5 6 7 8 9 garage_facts garage_more_facts show ?thesis by blast
qed

lemma scale10_nonneg: "0 \<le> q \<Longrightarrow> 0 \<le> scale10 q e"
  by (simp add: scale10_def)

lemma strUnsignedDecimal_nonneg: "strUnsignedDecimal s = Some q \<Longrightarrow> 0 \<le> q"
  unfolding strUnsignedDecimal_def Let_def
  by (auto split: prod.splits if_splits intro!: scale10_nonneg)

lemma startsWith_hd: "startsWith (c # cs) w \<Longrightarrow> w \<noteq> [] \<Longrightarrow> hd w = c"
  by (cases w) auto

lemma whiteSpace_heads:
  "w \<in> set whiteSpace \<Longrightarrow>
     w \<noteq> [] \<and> hd w \<in> set [CHR 0x09, CHR 0x0A, CHR 0x0B, CHR 0x0C, CHR 0x0D, CHR 0x20,
                             CHR 0xC2, CHR 0xE1, CHR 0xE2, CHR 0xE3, CHR 0xEF]"
  by (auto simp: whiteSpace_def)

lemma numChar_no_whiteSpace:
  "numChar c \<Longrightarrow>
     c \<notin> set [CHR 0x09, CHR 0x0A, CHR 0x0B, CHR 0x0C, CHR 0x0D, CHR 0x20,
              CHR 0xC2, CHR 0xE1, CHR 0xE2, CHR 0xE3, CHR 0xEF]"
  by (auto simp: numChar_def isDigit_def)

lemma wsLen_numChar:
  assumes "numChar c"
  shows "wsLen (c # cs) = 0"
proof -
  have "\<not> startsWith (c # cs) w" if "w \<in> set whiteSpace" for w
    using whiteSpace_heads [OF that] numChar_no_whiteSpace [OF assms] startsWith_hd [of c cs w]
    by blast
  then have "filter (startsWith (c # cs)) whiteSpace = []"
    by (simp add: filter_empty_conv)
  then show ?thesis by (simp add: wsLen_def)
qed

lemma parseFloat_numChar:
  assumes "numChar c"
  shows "parseFloat (c # cs) =
           (case strUnsignedDecimal (c # cs) of None \<Rightarrow> NaN | Some q \<Rightarrow> Fin q)"
proof -
  from assms have c: "c \<noteq> CHR ''-''" "c \<noteq> CHR ''+''" "c \<noteq> CHR ''I''"
    by (auto simp: numChar_def isDigit_def)
  then have "splitSign (c # cs) = (False, c # cs)"
    by (simp add: splitSign_def)
  with wsLen_numChar [OF assms, of cs] c(3) show ?thesis
    by (simp add: parseFloat_def split: option.splits)
qed

lemma parseEfficiencyValue_nonneg:
  assumes "parseEfficiencyValue eff = Fin e"
  shows "0 \<le> e"
proof (cases "matchNumber eff")
  case None
  with assms show ?thesis by (simp add: parseEfficiencyValue_def)
next
  case (Some r)
  from firstRun_decomp [OF Some [unfolded matchNumber_def]]
  obtain c cs where r: "r = c # cs" "numChar c"
    by (cases r) auto
  from assms Some have "parseFloat r = Fin e" by (simp add: parseEfficiencyValue_def)
  with r parseFloat_numChar [of c cs] show ?thesis
    by (auto split: option.splits dest: strUnsignedDecimal_nonneg)
qed

lemma round2_mono: "x \<le> y \<Longrightarrow> round2 x \<le> round2 y"
  by (simp add: round2_def divide_right_mono floor_mono)

lemma round2_near: "\<bar>round2 x - x\<bar> \<le> 1 / 200"
proof -
  have "\<bar>of_int \<lfloor>x * 100 + 1 / 2\<rfloor> - x * 100\<bar> \<le> 1 / 2"
    by linarith
  then have "\<bar>(of_int \<lfloor>x * 100 + 1 / 2\<rfloor> - x * 100) / 100\<bar> \<le> (1 / 2) / 100"
    by (simp only: abs_divide) simp
  then show ?thesis
    by (simp add: round2_def diff_divide_distrib)
qed

text \<open>
  C8, as stated, at 1 km for a petrol car of 6.2 l/100 km: the rate per km is
  \<open>6.2 / 100 * 33.71 = 2.09002\<close>, so the stated cost is 2.09002; \<open>getCarCost\<close> returns 2.09.
\<close>

theorem car_cost_counterexample:
  "findCar [polo] (trip_carModel (poloTrip ''1'')) = Some polo
   \<and> czFuelPrices (fuelType polo) = Some (Fin (3371 / 100))
   \<and> parseEfficiencyValue (efficiency polo) = Fin (62 / 10)
   \<and> distanceKmOf (poloTrip ''1'') = Fin 1
   \<and> getCarCost (poloTrip ''1'') [polo] czFuelPrices = Fin (209 / 100)
   \<and> (1 :: real) * ((62 / 10) / 100 * (3371 / 100)) = 209002 / 100000
   \<and> getCarCost (poloTrip ''1'') [polo] czFuelPrices
        \<noteq> Fin (1 * ((62 / 10) / 100 * (3371 / 100)))"
  by code_simp

text \<open>
  C8, amended. For a car that is found, whose efficiency parses and whose fuel type has
  a unit price above 0: over the distances above 0 the cost does not decrease when the
  distance grows, and the cost at distance \<open>d\<close> is \<open>d * k\<close> rounded to 2 decimals, with
  \<open>k = efficiency / 100 * unit price\<close>, so it is within 0.005 of \<open>d * k\<close>.
\<close>

theorem car_cost_monotone:
  assumes "findCar cars name = Some car"
      and "parseEfficiencyValue (efficiency car) = Fin e"
      and "prices (fuelType car) = Some (Fin p)" and "0 < p"
  shows "(\<forall>t1 t2 d1 d2.
            trip_carModel t1 = name \<and> trip_carModel t2 = name
            \<and> distanceKmOf t1 = Fin d1 \<and> distanceKmOf t2 = Fin d2 \<and> 0 < d1 \<and> d1 \<le> d2 \<longrightarrow>
            num_le (getCarCost t1 cars prices) (getCarCost t2 cars prices))
       \<and> (\<forall>t d. trip_carModel t = name \<and> distanceKmOf t = Fin d \<and> 0 < d \<longrightarrow>
            getCarCost t cars prices = Fin (round2 (d * (e / 100 * p)))
            \<and> \<bar>round2 (d * (e / 100 * p)) - d * (e / 100 * p)\<bar> \<le> 1 / 200)"
proof -
  have e: "0 \<le> e" using assms(2) by (rule parseEfficiencyValue_nonneg)
  have cost: "getCarCost t cars prices = Fin (round2 (d * (e / 100 * p)))"
    if "trip_carModel t = name" "distanceKmOf t = Fin d" "0 < d" for t d
  proof (cases "e = 0")
    case True
    with that assms show ?thesis by (simp add: getCarCost_unfold getProperty_def round2_def)
  next
    case False
    with that assms getCarCost_finite [of cars t car d e prices p] show ?thesis
      by (simp add: mult.assoc)
  qed
  have "num_le (getCarCost t1 cars prices) (getCarCost t2 cars prices)"
    if "trip_carModel t1 = name" "trip_carModel t2 = name"
       "distanceKmOf t1 = Fin d1" "distanceKmOf t2 = Fin d2" "0 < d1" "d1 \<le> d2"
    for t1 t2 d1 d2
  proof -
    from e assms(4) have "0 \<le> e / 100 * p" by simp
    with that(6) have "d1 * (e / 100 * p) \<le> d2 * (e / 100 * p)"
      by (rule mult_right_mono)
    then have "round2 (d1 * (e / 100 * p)) \<le> round2 (d2 * (e / 100 * p))"
      by (rule round2_mono)
    with cost [OF that(1,3,5)] cost [OF that(2,4)] that(5,6) show ?thesis by simp
  qed
  with cost round2_near show ?thesis by blast
qed

theorem car_cost_monotone_witness:
  "findCar garage ''volkswagen polo'' = Some polo
   \<and> parseEfficiencyValue (efficiency polo) = Fin (62 / 10)
   \<and> czFuelPrices (fuelType polo) = Some (Fin (3371 / 100))
   \<and> (0 :: real) < 3371 / 100
   \<and> distanceKmOf (poloTrip ''10'') = Fin 10 \<and> distanceKmOf (poloTrip ''20'') = Fin 20
   \<and> num_le (getCarCost (poloTrip ''10'') garage czFuelPrices)
            (getCarCost (poloTrip ''20'') garage czFuelPrices)
   \<and> getCarCost (poloTrip ''10'') garage czFuelPrices = Fin (209 / 10)
   \<and> getCarCost (poloTrip ''20'') garage czFuelPrices = Fin (418 / 10)
   \<and> \<bar>209 / 10 - 10 * (62 / 10 / 100 * (3371 / 100 :: real))\<bar> \<le> 1 / 200"
proof -
  have p: "(0 :: real) < 3371 / 100" by simp
  note m = car_cost_monotone [of garage "''volkswagen polo''" polo "62 / 10" czFuelPrices
                                 "3371 / 100", OF garage_facts(11) garage_facts(9)
                                 garage_facts(10) p]
  have d: "(0 :: real) < 10" "(10 :: real) \<le> 20" "(0 :: real) < 20" by simp_all
  from m [THEN conjunct1, rule_format, of "poloTrip ''10''" "poloTrip ''20''" 10 20]
  have le: "num_le (getCarCost (poloTrip ''10'') garage czFuelPrices)
            (getCarCost (poloTrip ''20'') garage czFuelPrices)"
    using garage_facts(8,12,13,14) d by blast
  from m [THEN conjunct2, rule_format, of "poloTrip ''10''" 10]
  have "getCarCost (poloTrip ''10'') garage czFuelPrices
                 = Fin (round2 (10 * (62 / 10 / 100 * (3371 / 100))))"
    using garage_facts(8,12) d by blast
  then have c10: "getCarCost (poloTrip ''10'') garage czFuelPrices = Fin (209 / 10)"
    by (simp only: round2_samples)
  from m [THEN conjunct2, rule_format, of "poloTrip ''20''" 20]
  have "getCarCost (poloTrip ''20'') garage czFuelPrices
                 = Fin (round2 (20 * (62 / 10 / 100 * (3371 / 100))))"
    using garage_facts(14,13) d by blast
  then have c20: "getCarCost (poloTrip ''20'') garage czFuelPrices = Fin (418 / 10)"
    by (simp only: round2_samples)
  have near: "\<bar>209 / 10 - 10 * (62 / 10 / 100 * (3371 / 100 :: real))\<bar> \<le> 1 / 200"
    by simp
  from le c10 c20 near p garage_facts(8,9,10,11,14) show ?thesis by blast
qed

subsection \<open>The filter step\<close>

lemma daysInMonth_bounds: "28 \<le> daysInMonth y m \<and> daysInMonth y m \<le> 31"
  by (simp add: daysInMonth_def)

lemma prevDay_steps:
  "0 \<le> n \<Longrightarrow> n < getDate t \<Longrightarrow> (prevDay ^^ nat n) t = t\<lparr>getDate := getDate t - n\<rparr>"
proof (induction "nat n" arbitrary: n)
  case 0
  then show ?case by simp
next
  case (Suc k)
  then have k: "k = nat (n - 1)" "0 \<le> n - 1" "n - 1 < getDate t" "nat n = Suc (nat (n - 1))"
    by linarith+
  from Suc.hyps(1) [OF k(1,2,3)] have "(prevDay ^^ nat (n - 1)) t = t\<lparr>getDate := getDate t - (n - 1)\<rparr>" .
  then have "(prevDay ^^ nat n) t = prevDay (t\<lparr>getDate := getDate t - (n - 1)\<rparr>)"
    by (simp add: k(4))
  also have "\<dots> = t\<lparr>getDate := getDate t - n\<rparr>"
    using Suc.prems by (simp add: prevDay_def)
  finally show ?case .
qed

lemma setDate_week:
  assumes "validDay t"
  shows "setDate t (getDate t - 7) = (prevDay ^^ 7) t"
proof (cases "7 < getDate t")
  case True
  from prevDay_steps [of 7 t] True have "(prevDay ^^ 7) t = t\<lparr>getDate := getDate t - 7\<rparr>"
    by simp
  with True show ?thesis by (simp add: setDate_def)
next
  case False
  define k where "k = getDate t"
  with False assms have k: "1 \<le> k" "k \<le> 7" by (simp_all add: validDay_def)
  define t1 where "t1 = (prevDay ^^ nat (k - 1)) t"
  have t1: "t1 = t\<lparr>getDate := 1\<rparr>"
    unfolding t1_def using prevDay_steps [of "k - 1" t] k by (simp add: k_def)
  define t2 where "t2 = prevDay t1"
  have split: "(prevDay ^^ 7) t = (prevDay ^^ nat (7 - k)) t2"
  proof -
    define a b where "a = nat (7 - k)" and "b = nat (k - 1)"
    have "(7 :: nat) = a + Suc b" using k by (simp add: a_def b_def)
    then have "(prevDay ^^ 7) t = (prevDay ^^ (a + Suc b)) t"
      by (rule arg_cong)
    also have "\<dots> = (prevDay ^^ a) (prevDay ((prevDay ^^ b) t))"
      by (simp add: funpow_add funpow_swap1)
    finally show ?thesis by (simp add: t2_def t1_def a_def b_def)
  qed
  show ?thesis
  proof (cases "getMonth t = 0")
    case True
    then have t2: "t2 = t\<lparr>getFullYear := getFullYear t - 1, getMonth := 11, getDate := 31\<rparr>"
      by (simp add: t2_def t1 prevDay_def)
    have "(prevDay ^^ nat (7 - k)) t2 = t2\<lparr>getDate := getDate t2 - (7 - k)\<rparr>"
      using prevDay_steps [of "7 - k" t2] k by (simp add: t2)
    with split True k show ?thesis
      by (simp add: setDate_def t2 k_def daysInMonth_def)
  next
    case False
    then have t2: "t2 = t\<lparr>getMonth := getMonth t - 1,
                            getDate := daysInMonth (getFullYear t) (getMonth t - 1)\<rparr>"
      by (simp add: t2_def t1 prevDay_def)
    have "(prevDay ^^ nat (7 - k)) t2 = t2\<lparr>getDate := getDate t2 - (7 - k)\<rparr>"
      using prevDay_steps [of "7 - k" t2] k
            daysInMonth_bounds [of "getFullYear t" "getMonth t - 1"]
      by (simp add: t2)
    with split False k show ?thesis
      by (simp add: setDate_def t2 k_def)
  qed
qed

lemma newDate_today:
  "2000 \<le> getFullYear now \<Longrightarrow>
     newDate (getFullYear now) (getMonth now) (getDate now) = startOfDay now"
  by (simp add: newDate_def startOfDay_def)

lemma newDate_sameDay:
  "2000 \<le> getFullYear now \<Longrightarrow>
     (newDate (getFullYear td) (getMonth td) (getDate td)
        = newDate (getFullYear now) (getMonth now) (getDate now)) = sameDay td now"
  by (auto simp: newDate_def sameDay_def)

lemma isInPeriod_inWindow:
  assumes "validDay now" and "2000 \<le> getFullYear now"
      and "per \<in> {''Today'', ''Week'', ''Month'', ''Year''}"
  shows "isInPeriod now tripDate per = inWindow now per tripDate"
proof -
  have v: "validDay (startOfDay now)" using assms(1) by (simp add: validDay_def startOfDay_def)
  have w: "setDate (startOfDay now) (getDate (startOfDay now) - 7)
             = (prevDay ^^ 7) (startOfDay now)"
    using setDate_week [OF v] .
  from assms(3) consider "per = ''Today''" | "per = ''Week''" | "per = ''Month''" | "per = ''Year''"
    by blast
  then show ?thesis
  proof cases
    case 1
    then show ?thesis
      using newDate_sameDay [OF assms(2)]
      by (simp add: isInPeriod_def inWindow_def Let_def split: option.splits)
  next
    case 2
    then show ?thesis
      using w by (simp add: isInPeriod_def inWindow_def Let_def newDate_today [OF assms(2)]
                       split: option.splits)
  next
    case 3
    then show ?thesis
      by (simp add: isInPeriod_def inWindow_def Let_def split: option.splits)
  next
    case 4
    then show ?thesis
      by (simp add: isInPeriod_def inWindow_def Let_def split: option.splits)
  qed
qed

text \<open>
  Local time in milliseconds, \<open>localMs\<close>, is ordered as the dates are, and the day before
  is one day's worth of milliseconds earlier; so the week window of \<open>inWindow\<close> reaches
  back 7 times 24 hours and the part of today that has passed.
\<close>

lemma div_step:
  fixes y k :: int
  assumes "0 < k"
  shows "(y + k) div k = (y + (k - 1)) div k + (if y mod k = 0 then 1 else 0)"
proof -
  define q r where "q = y div k" and "r = y mod k"
  have y: "y = q * k + r" by (simp add: q_def r_def)
  have r: "0 \<le> r" "r < k" using assms by (simp_all add: r_def)
  have 1: "(y + k) div k = q + 1" using assms by (simp add: q_def)
  show ?thesis
  proof (cases "r = 0")
    case True
    have "(y + (k - 1)) div k = (k - 1 + q * k) div k" by (simp add: y True add.commute)
    also have "\<dots> = (k - 1) div k + q" using assms by simp
    also have "\<dots> = q" using assms by (simp add: div_pos_pos_trivial)
    finally show ?thesis using 1 True by (simp add: r_def)
  next
    case False
    have "y + (k - 1) = (r - 1) + (q + 1) * k" by (simp add: y algebra_simps)
    then have "(y + (k - 1)) div k = ((r - 1) + (q + 1) * k) div k" by (simp only:)
    also have "\<dots> = (r - 1) div k + (q + 1)" using assms by simp
    also have "\<dots> = q + 1" using r False by (simp add: div_pos_pos_trivial)
    finally show ?thesis using 1 False by (simp add: r_def)
  qed
qed

lemma mod_400_100: "(y :: int) mod 400 = 0 \<Longrightarrow> y mod 100 = 0"
proof -
  assume "y mod 400 = 0"
  then have "400 dvd y" by (simp add: mod_eq_0_iff_dvd)
  moreover have "(100 :: int) dvd 400" by simp
  ultimately have "100 dvd y" using dvd_trans by blast
  then show ?thesis by (simp add: mod_eq_0_iff_dvd)
qed

lemma mod_100_4: "(y :: int) mod 100 = 0 \<Longrightarrow> y mod 4 = 0"
proof -
  assume "y mod 100 = 0"
  then have "100 dvd y" by (simp add: mod_eq_0_iff_dvd)
  moreover have "(4 :: int) dvd 100" by simp
  ultimately have "4 dvd y" using dvd_trans by blast
  then show ?thesis by (simp add: mod_eq_0_iff_dvd)
qed

lemma daysBeforeYear_Suc: "daysBeforeYear (y + 1) = daysBeforeYear y + yearLength y"
proof -
  define p4 p100 p400 where "p4 \<longleftrightarrow> y mod 4 = 0" and "p100 \<longleftrightarrow> y mod 100 = 0"
    and "p400 \<longleftrightarrow> y mod 400 = 0"
  define a b c where "a = (y + 3) div 4" and "b = (y + 99) div 100"
    and "c = (y + 399) div 400"
  have imp: "p400 \<longrightarrow> p100" "p100 \<longrightarrow> p4"
    using mod_400_100 [of y] mod_100_4 [of y] by (simp_all add: p4_def p100_def p400_def)
  have 4: "(y + 4) div 4 = a + (if p4 then 1 else 0)"
    using div_step [of 4 y] by (simp add: a_def p4_def)
  have 100: "(y + 100) div 100 = b + (if p100 then 1 else 0)"
    using div_step [of 100 y] by (simp add: b_def p100_def)
  have 400: "(y + 400) div 400 = c + (if p400 then 1 else 0)"
    using div_step [of 400 y] by (simp add: c_def p400_def)
  have "daysBeforeYear (y + 1)
          = 365 * (y + 1) + (y + 4) div 4 - (y + 100) div 100 + (y + 400) div 400"
    by (simp add: daysBeforeYear_def add.commute)
  also have "\<dots> = 365 * (y + 1) + (a + (if p4 then 1 else 0)) - (b + (if p100 then 1 else 0))
                    + (c + (if p400 then 1 else 0))"
    by (simp only: 4 100 400)
  finally have 1: "daysBeforeYear (y + 1)
       = 365 * (y + 1) + (a + (if p4 then 1 else 0)) - (b + (if p100 then 1 else 0))
                    + (c + (if p400 then 1 else 0))" .
  have 2: "daysBeforeYear y = 365 * y + a - b + c"
    by (simp only: daysBeforeYear_def a_def b_def c_def)
  have 3: "yearLength y = (if p4 \<and> (\<not> p100 \<or> p400) then 366 else 365)"
    by (simp only: yearLength_def isLeapYear_def p4_def p100_def p400_def)
  show ?thesis
    unfolding 1 2 3 using imp by (cases p4; cases p100; cases p400) simp_all
qed

lemma daysBeforeMonth_0: "daysBeforeMonth y 0 = 0"
  by (simp add: daysBeforeMonth_def)

lemma daysBeforeMonth_Suc:
  "0 \<le> m \<Longrightarrow> daysBeforeMonth y (m + 1) = daysBeforeMonth y m + daysInMonth y m"
  by (simp add: daysBeforeMonth_def upto_rec2)

lemma daysBeforeMonth_12: "daysBeforeMonth y 12 = yearLength y"
  by (simp add: daysBeforeMonth_def upto.simps daysInMonth_def yearLength_def)

lemma daysBeforeMonth_mono:
  "0 \<le> m \<Longrightarrow> m \<le> n \<Longrightarrow> daysBeforeMonth y m \<le> daysBeforeMonth y n"
proof (induction "nat (n - m)" arbitrary: n)
  case 0
  then show ?case by simp
next
  case (Suc k)
  then have "k = nat (n - 1 - m)" "m \<le> n - 1" "0 \<le> n - 1" by linarith+
  with Suc.hyps(1) [of "n - 1"] Suc.prems(1)
  have "daysBeforeMonth y m \<le> daysBeforeMonth y (n - 1)" by blast
  moreover have "daysBeforeMonth y (n - 1 + 1) = daysBeforeMonth y (n - 1) + daysInMonth y (n - 1)"
    using \<open>0 \<le> n - 1\<close> by (rule daysBeforeMonth_Suc)
  moreover have "0 \<le> daysInMonth y (n - 1)"
    using daysInMonth_bounds [of y "n - 1"] by linarith
  ultimately show ?case by simp
qed

lemma yearLength_pos: "365 \<le> yearLength y"
  by (simp add: yearLength_def)

lemma daysBeforeYear_mono:
  "y < z \<Longrightarrow> daysBeforeYear y + yearLength y \<le> daysBeforeYear z"
proof (induction "nat (z - y)" arbitrary: z)
  case 0
  then show ?case by simp
next
  case (Suc k)
  show ?case
  proof (cases "z = y + 1")
    case True
    then show ?thesis by (simp add: daysBeforeYear_Suc)
  next
    case False
    with Suc have "k = nat (z - 1 - y)" "y < z - 1" by linarith+
    with Suc.hyps(1) [of "z - 1"]
    have "daysBeforeYear y + yearLength y \<le> daysBeforeYear (z - 1)" by blast
    moreover have "daysBeforeYear (z - 1 + 1) = daysBeforeYear (z - 1) + yearLength (z - 1)"
      by (rule daysBeforeYear_Suc)
    moreover have "0 \<le> yearLength (z - 1)" using yearLength_pos [of "z - 1"] by linarith
    ultimately show ?thesis by simp
  qed
qed

lemma dayOfYear_bounds:
  assumes "validDay t"
  shows "0 \<le> daysBeforeMonth (getFullYear t) (getMonth t) + (getDate t - 1)"
    and "daysBeforeMonth (getFullYear t) (getMonth t) + (getDate t - 1)
           < yearLength (getFullYear t)"
proof -
  from assms have m: "0 \<le> getMonth t" "getMonth t \<le> 11"
    and d: "1 \<le> getDate t" "getDate t \<le> daysInMonth (getFullYear t) (getMonth t)"
    by (simp_all add: validDay_def)
  have "daysBeforeMonth (getFullYear t) 0 \<le> daysBeforeMonth (getFullYear t) (getMonth t)"
    using m by (intro daysBeforeMonth_mono) simp_all
  then show "0 \<le> daysBeforeMonth (getFullYear t) (getMonth t) + (getDate t - 1)"
    using d by (simp add: daysBeforeMonth_0)
  have "daysBeforeMonth (getFullYear t) (getMonth t + 1) \<le> daysBeforeMonth (getFullYear t) 12"
    using m by (intro daysBeforeMonth_mono) simp_all
  then show "daysBeforeMonth (getFullYear t) (getMonth t) + (getDate t - 1)
           < yearLength (getFullYear t)"
    using d m by (simp add: daysBeforeMonth_Suc daysBeforeMonth_12)
qed

lemma timeLT_dayNumber:
  assumes "validDay a" and "validDay b" and "timeLT a b"
  shows "dayNumber a < dayNumber b \<or> (dayNumber a = dayNumber b \<and> msOfDay a < msOfDay b)"
proof -
  from assms(3) consider
      (year) "getFullYear a < getFullYear b"
    | (month) "getFullYear a = getFullYear b" "getMonth a < getMonth b"
    | (day) "getFullYear a = getFullYear b" "getMonth a = getMonth b" "getDate a < getDate b"
    | (ms) "getFullYear a = getFullYear b" "getMonth a = getMonth b" "getDate a = getDate b"
           "msOfDay a < msOfDay b"
    unfolding timeLT_def by blast
  then show ?thesis
  proof cases
    case year
    from daysBeforeYear_mono [OF year] dayOfYear_bounds [OF assms(1)]
         dayOfYear_bounds(1) [OF assms(2)]
    show ?thesis by (simp add: dayNumber_def)
  next
    case month
    from assms(1,2) have m: "0 \<le> getMonth a"
      and d: "getDate a \<le> daysInMonth (getFullYear a) (getMonth a)" "1 \<le> getDate b"
      by (simp_all add: validDay_def)
    have "daysBeforeMonth (getFullYear a) (getMonth a + 1)
            \<le> daysBeforeMonth (getFullYear a) (getMonth b)"
      using m month(2) by (intro daysBeforeMonth_mono) simp_all
    then show ?thesis
      using d m month(1) by (simp add: dayNumber_def daysBeforeMonth_Suc)
  next
    case day
    then show ?thesis by (simp add: dayNumber_def)
  next
    case ms
    then show ?thesis by (simp add: dayNumber_def)
  qed
qed

lemma timeLT_localMs:
  assumes "validDay a" and "validDay b"
      and "0 \<le> msOfDay a" and "msOfDay a < 86400000"
      and "0 \<le> msOfDay b" and "msOfDay b < 86400000"
      and "timeLT a b"
  shows "localMs a < localMs b"
proof -
  from timeLT_dayNumber [OF assms(1,2,7)] show ?thesis
  proof
    assume "dayNumber a < dayNumber b"
    then have "dayNumber a + 1 \<le> dayNumber b" by simp
    then have "(dayNumber a + 1) * 86400000 \<le> dayNumber b * 86400000" by simp
    with assms(4,5) show ?thesis by (simp add: localMs_def algebra_simps)
  next
    assume "dayNumber a = dayNumber b \<and> msOfDay a < msOfDay b"
    then show ?thesis by (simp add: localMs_def)
  qed
qed

lemma timeLT_total: "timeLT a b \<or> a = b \<or> timeLT b a"
  unfolding timeLT_def by (cases a; cases b) auto

lemma timeLE_localMs:
  assumes "validDay a" and "validDay b"
      and "0 \<le> msOfDay a" and "msOfDay a < 86400000"
      and "0 \<le> msOfDay b" and "msOfDay b < 86400000"
  shows "timeLE a b \<longleftrightarrow> localMs a \<le> localMs b"
proof
  assume "timeLE a b"
  then show "localMs a \<le> localMs b"
    using timeLT_localMs [OF assms] by (auto simp: timeLE_def)
next
  assume le: "localMs a \<le> localMs b"
  show "timeLE a b"
  proof (rule ccontr)
    assume "\<not> timeLE a b"
    with timeLT_total [of a b] have "timeLT b a" by (auto simp: timeLE_def)
    from timeLT_localMs [OF assms(2,1,5,6,3,4) this] le show False by simp
  qed
qed

lemma prevDay_dayNumber:
  assumes "validDay t"
  shows "validDay (prevDay t) \<and> dayNumber (prevDay t) = dayNumber t - 1
         \<and> msOfDay (prevDay t) = msOfDay t"
proof -
  from assms have m: "0 \<le> getMonth t" "getMonth t \<le> 11"
    and d: "1 \<le> getDate t" "getDate t \<le> daysInMonth (getFullYear t) (getMonth t)"
    by (simp_all add: validDay_def)
  consider (a) "1 < getDate t" | (b) "getDate t = 1" "getMonth t = 0"
    | (c) "getDate t = 1" "0 < getMonth t"
    using m d by linarith
  then show ?thesis
  proof cases
    case a
    with m d show ?thesis by (simp add: prevDay_def validDay_def dayNumber_def)
  next
    case b
    have "daysBeforeYear (getFullYear t - 1 + 1)
            = daysBeforeYear (getFullYear t - 1) + yearLength (getFullYear t - 1)"
      by (rule daysBeforeYear_Suc)
    moreover have "daysBeforeMonth (getFullYear t - 1) (11 + 1)
            = daysBeforeMonth (getFullYear t - 1) 11 + daysInMonth (getFullYear t - 1) 11"
      by (rule daysBeforeMonth_Suc) simp
    moreover have "daysInMonth (getFullYear t - 1) 11 = 31" by (simp add: daysInMonth_def)
    ultimately show ?thesis
      using b by (simp add: prevDay_def validDay_def dayNumber_def daysBeforeMonth_12
                            daysBeforeMonth_0)
  next
    case c
    have "daysBeforeMonth (getFullYear t) (getMonth t - 1 + 1)
            = daysBeforeMonth (getFullYear t) (getMonth t - 1)
              + daysInMonth (getFullYear t) (getMonth t - 1)"
      using c(2) by (intro daysBeforeMonth_Suc) simp
    then show ?thesis
      using c m daysInMonth_bounds [of "getFullYear t" "getMonth t - 1"]
      by (simp add: prevDay_def validDay_def dayNumber_def)
  qed
qed

lemma prevDay_pow_dayNumber:
  assumes "validDay t"
  shows "validDay ((prevDay ^^ n) t) \<and> dayNumber ((prevDay ^^ n) t) = dayNumber t - int n
         \<and> msOfDay ((prevDay ^^ n) t) = msOfDay t"
proof (induction n)
  case 0
  with assms show ?case by simp
next
  case (Suc n)
  then have v: "validDay ((prevDay ^^ n) t)" by blast
  from prevDay_dayNumber [OF v] Suc show ?case by simp
qed

lemma week_window_elapsed:
  assumes "validDay now" and "validDay td"
      and "0 \<le> msOfDay now" and "msOfDay now < 86400000"
      and "0 \<le> msOfDay td" and "msOfDay td < 86400000"
  shows "inWindow now ''Week'' (Some td) \<longleftrightarrow>
           localMs now - (7 * 86400000 + msOfDay now) \<le> localMs td
           \<and> localMs td \<le> localMs now"
proof -
  define start where "start = (prevDay ^^ 7) (startOfDay now)"
  have v0: "validDay (startOfDay now)"
    using assms(1) by (simp add: validDay_def startOfDay_def)
  from prevDay_pow_dayNumber [OF v0, of 7]
  have s: "validDay start" "dayNumber start = dayNumber (startOfDay now) - 7"
          "msOfDay start = 0"
    by (simp_all add: start_def startOfDay_def)
  have dn: "dayNumber (startOfDay now) = dayNumber now"
    by (simp add: dayNumber_def startOfDay_def)
  have ms: "localMs start = localMs now - (7 * 86400000 + msOfDay now)"
    using s(2,3) dn by (simp add: localMs_def algebra_simps)
  have 1: "timeLE start td \<longleftrightarrow> localMs start \<le> localMs td"
    using s(1,3) assms(2,5,6) by (intro timeLE_localMs) simp_all
  have 2: "timeLE td now \<longleftrightarrow> localMs td \<le> localMs now"
    using assms by (intro timeLE_localMs) simp_all
  have "inWindow now ''Week'' (Some td) \<longleftrightarrow> timeLE start td \<and> timeLE td now"
    by (simp add: inWindow_def start_def)
  then show ?thesis by (simp only: 1 2 ms)
qed

text \<open>
  C6, as stated, at a trip of 27 May 2025, 00:30, with the clock at 3 June 2025, 13:00:
  the trip is 7 days and 12.5 hours old, so it is not within the trailing 7 days; the
  week of \<open>isInPeriod\<close> starts at local midnight of 27 May, and the filter keeps the
  trip.
\<close>

theorem filter_step_counterexample:
  "clockOf ''2025-05-27T00:30:00.000Z''
     = Some \<lparr>getFullYear = 2025, getMonth = 4, getDate = 27, msOfDay = 1800000\<rparr>
   \<and> localMs sampleNow
       - localMs \<lparr>getFullYear = 2025, getMonth = 4, getDate = 27, msOfDay = 1800000\<rparr>
       = 7 * 86400000 + 45000000
   \<and> \<not> trailing7Days sampleNow (clockOf ''2025-05-27T00:30:00.000Z'')
   \<and> isInPeriod sampleNow (clockOf ''2025-05-27T00:30:00.000Z'') ''Week''
   \<and> filteredTrips clockOf sampleNow [tripAt ''2025-05-27T00:30:00.000Z'']
         (criteria ''Week'' [])
       = [tripAt ''2025-05-27T00:30:00.000Z'']"
  by code_simp

text \<open>
  C6, amended. With the clock on a proper calendar day of the year 2000 or later and a
  period that is one of \<open>Today\<close>, \<open>Week\<close>, \<open>Month\<close>, \<open>Year\<close>, the filter keeps exactly the
  trips, in their order, whose timestamp is a date inside the window of the period
  (today: the same calendar day as now; week: from local midnight of the day seven
  calendar days before today up to now inclusive; month: the same month and year;
  year: the same year) and that agree with each criterion that is not empty:
  department, driver, car model. In elapsed time the week window is the trailing 7
  times 24 hours and the part of today that has passed, so it holds every trip of the
  trailing 7 days and reaches back up to one day more.
\<close>

theorem filter_step:
  assumes "validDay now" and "2000 \<le> getFullYear now"
      and "period filters \<in> {''Today'', ''Week'', ''Month'', ''Year''}"
  shows "filteredTrips dateOf now trips filters =
           filter (\<lambda>trip. inWindow now (period filters) (dateOf (tripTimestamp trip))
                          \<and> matchesCriteria filters trip) trips
       \<and> (trip \<in> set (filteredTrips dateOf now trips filters) \<longleftrightarrow>
            trip \<in> set trips
            \<and> inWindow now (period filters) (dateOf (tripTimestamp trip))
            \<and> (department filters = [] \<or> userDepartment trip = department filters)
            \<and> (driverName filters = [] \<or> userId trip = driverName filters)
            \<and> (filter_carModel filters = [] \<or> carModel trip = filter_carModel filters))
       \<and> (\<forall>td. validDay td \<and> 0 \<le> msOfDay td \<and> msOfDay td < 86400000
              \<and> 0 \<le> msOfDay now \<and> msOfDay now < 86400000 \<longrightarrow>
              (inWindow now ''Week'' (Some td) \<longleftrightarrow>
                 localMs now - (7 * 86400000 + msOfDay now) \<le> localMs td
                 \<and> localMs td \<le> localMs now)
              \<and> (trailing7Days now (Some td) \<longrightarrow> inWindow now ''Week'' (Some td)))"
proof -
  have eq: "filteredTrips dateOf now trips filters =
           filter (\<lambda>trip. inWindow now (period filters) (dateOf (tripTimestamp trip))
                          \<and> matchesCriteria filters trip) trips"
    unfolding filteredTrips_def Let_def isInPeriod_inWindow [OF assms] matchesCriteria_def
    by (rule filter_cong) auto
  have mem: "trip \<in> set (filteredTrips dateOf now trips filters) \<longleftrightarrow>
            trip \<in> set trips
            \<and> inWindow now (period filters) (dateOf (tripTimestamp trip))
            \<and> (department filters = [] \<or> userDepartment trip = department filters)
            \<and> (driverName filters = [] \<or> userId trip = driverName filters)
            \<and> (filter_carModel filters = [] \<or> carModel trip = filter_carModel filters)"
    unfolding eq by (auto simp: matchesCriteria_def)
  have week: "(inWindow now ''Week'' (Some td) \<longleftrightarrow>
                 localMs now - (7 * 86400000 + msOfDay now) \<le> localMs td
                 \<and> localMs td \<le> localMs now)
              \<and> (trailing7Days now (Some td) \<longrightarrow> inWindow now ''Week'' (Some td))"
    if "validDay td" "0 \<le> msOfDay td" "msOfDay td < 86400000"
       "0 \<le> msOfDay now" "msOfDay now < 86400000" for td
  proof -
    note w = week_window_elapsed [OF assms(1) that(1) that(4,5) that(2,3)]
    have "trailing7Days now (Some td) \<longrightarrow> inWindow now ''Week'' (Some td)"
      unfolding w using that(4) by (simp add: trailing7Days_def)
    with w show ?thesis by blast
  qed
  from eq mem week show ?thesis by blast
qed

lemma sampleNow_valid: "validDay sampleNow" "2000 \<le> getFullYear sampleNow"
  by (simp_all add: validDay_def sampleNow_def daysInMonth_def)

lemma criteria_period:
  "period (criteria ''Today'' d) \<in> {''Today'', ''Week'', ''Month'', ''Year''}"
  "period (criteria ''Week'' d) \<in> {''Today'', ''Week'', ''Month'', ''Year''}"
  "period (criteria ''Month'' d) \<in> {''Today'', ''Week'', ''Month'', ''Year''}"
  "period (criteria ''Year'' d) \<in> {''Today'', ''Week'', ''Month'', ''Year''}"
  by (simp_all add: criteria_def)

lemma week_start_sample:
  "(prevDay ^^ 7) (startOfDay sampleNow)
     = \<lparr>getFullYear = 2025, getMonth = 4, getDate = 27, msOfDay = 0\<rparr>"
  by (simp add: eval_nat_numeral prevDay_def startOfDay_def sampleNow_def daysInMonth_def
        isLeapYear_def)

lemma inWindow_sample:
  "inWindow sampleNow per (clockOf ts) =
     (if ts = ''2025-05-27T00:30:00.000Z'' then per = ''Week'' \<or> (per \<noteq> ''Today'' \<and> per \<noteq> ''Month'')
      else if ts = ''2025-05-26T23:59:59.999Z'' then per \<noteq> ''Today'' \<and> per \<noteq> ''Week'' \<and> per \<noteq> ''Month''
      else if ts = ''2025-06-03T07:00:00.000Z'' then True
      else False)"
  unfolding inWindow_def week_start_sample
  by (simp add: clockOf_def sampleNow_def sameDay_def timeLE_def timeLT_def)

lemma windows_sample:
  "filter (\<lambda>trip. inWindow sampleNow (period (criteria ''Week'' []))
                    (clockOf (tripTimestamp trip))
                  \<and> matchesCriteria (criteria ''Week'' []) trip) loggedTrips
     = [tripAt ''2025-05-27T00:30:00.000Z'', tripAt ''2025-06-03T07:00:00.000Z'']"
  "filter (\<lambda>trip. inWindow sampleNow (period (criteria ''Today'' ''Sales''))
                    (clockOf (tripTimestamp trip))
                  \<and> matchesCriteria (criteria ''Today'' ''Sales'') trip) loggedTrips
     = [tripAt ''2025-06-03T07:00:00.000Z'']"
  "filter (\<lambda>trip. inWindow sampleNow (period (criteria ''Month'' []))
                    (clockOf (tripTimestamp trip))
                  \<and> matchesCriteria (criteria ''Month'' []) trip) loggedTrips
     = [tripAt ''2025-06-03T07:00:00.000Z'']"
  "filter (\<lambda>trip. inWindow sampleNow (period (criteria ''Year'' ''Finance''))
                    (clockOf (tripTimestamp trip))
                  \<and> matchesCriteria (criteria ''Year'' ''Finance'') trip) loggedTrips
     = []"
  by (simp_all add: inWindow_sample matchesCriteria_def criteria_def loggedTrips_def
        tripAt_def zeroTrip_def sampleTrip_def)

lemma week_samples:
  "validDay \<lparr>getFullYear = 2025, getMonth = 4, getDate = 27, msOfDay = 1800000\<rparr>"
  "inWindow sampleNow ''Week''
     (Some \<lparr>getFullYear = 2025, getMonth = 4, getDate = 27, msOfDay = 1800000\<rparr>)"
  "validDay \<lparr>getFullYear = 2025, getMonth = 5, getDate = 3, msOfDay = 25200000\<rparr>"
  "trailing7Days sampleNow
     (Some \<lparr>getFullYear = 2025, getMonth = 5, getDate = 3, msOfDay = 25200000\<rparr>)"
  "msOfDay sampleNow = 46800000"
  unfolding inWindow_def week_start_sample
  by (simp_all add: validDay_def daysInMonth_def sampleNow_def timeLE_def timeLT_def
                    trailing7Days_def localMs_def dayNumber_def)

theorem filter_step_witness:
  "validDay sampleNow \<and> 2000 \<le> getFullYear sampleNow
   \<and> (prevDay ^^ 7) (startOfDay sampleNow)
       = \<lparr>getFullYear = 2025, getMonth = 4, getDate = 27, msOfDay = 0\<rparr>
   \<and> filteredTrips clockOf sampleNow loggedTrips (criteria ''Week'' [])
       = [tripAt ''2025-05-27T00:30:00.000Z'', tripAt ''2025-06-03T07:00:00.000Z'']
   \<and> filteredTrips clockOf sampleNow loggedTrips (criteria ''Today'' ''Sales'')
       = [tripAt ''2025-06-03T07:00:00.000Z'']
   \<and> filteredTrips clockOf sampleNow loggedTrips (criteria ''Month'' [])
       = [tripAt ''2025-06-03T07:00:00.000Z'']
   \<and> filteredTrips clockOf sampleNow loggedTrips (criteria ''Year'' ''Finance'') = []
   \<and> validDay \<lparr>getFullYear = 2025, getMonth = 4, getDate = 27, msOfDay = 1800000\<rparr>
   \<and> inWindow sampleNow ''Week''
         (Some \<lparr>getFullYear = 2025, getMonth = 4, getDate = 27, msOfDay = 1800000\<rparr>)
   \<and> localMs sampleNow - (7 * 86400000 + msOfDay sampleNow)
         \<le> localMs \<lparr>getFullYear = 2025, getMonth = 4, getDate = 27, msOfDay = 1800000\<rparr>
   \<and> localMs \<lparr>getFullYear = 2025, getMonth = 4, getDate = 27, msOfDay = 1800000\<rparr>
         \<le> localMs sampleNow
   \<and> validDay \<lparr>getFullYear = 2025, getMonth = 5, getDate = 3, msOfDay = 25200000\<rparr>
   \<and> trailing7Days sampleNow
         (Some \<lparr>getFullYear = 2025, getMonth = 5, getDate = 3, msOfDay = 25200000\<rparr>)
   \<and> inWindow sampleNow ''Week''
         (Some \<lparr>getFullYear = 2025, getMonth = 5, getDate = 3, msOfDay = 25200000\<rparr>)"
proof -
  have 1: "filteredTrips clockOf sampleNow loggedTrips (criteria ''Week'' [])
       = [tripAt ''2025-05-27T00:30:00.000Z'', tripAt ''2025-06-03T07:00:00.000Z'']"
    using filter_step [where now = sampleNow and filters = "criteria ''Week'' []"
                         and dateOf = clockOf and trips = loggedTrips,
                       OF sampleNow_valid criteria_period(2), THEN conjunct1]
    by (simp only: windows_sample)
  have 2: "filteredTrips clockOf sampleNow loggedTrips (criteria ''Today'' ''Sales'')
       = [tripAt ''2025-06-03T07:00:00.000Z'']"
    using filter_step [where now = sampleNow and filters = "criteria ''Today'' ''Sales''"
                         and dateOf = clockOf and trips = loggedTrips,
                       OF sampleNow_valid criteria_period(1), THEN conjunct1]
    by (simp only: windows_sample)
  have 3: "filteredTrips clockOf sampleNow loggedTrips (criteria ''Month'' [])
       = [tripAt ''2025-06-03T07:00:00.000Z'']"
    using filter_step [where now = sampleNow and filters = "criteria ''Month'' []"
                         and dateOf = clockOf and trips = loggedTrips,
                       OF sampleNow_valid criteria_period(3), THEN conjunct1]
    by (simp only: windows_sample)
  have 4: "filteredTrips clockOf sampleNow loggedTrips (criteria ''Year'' ''Finance'') = []"
    using filter_step [where now = sampleNow and filters = "criteria ''Year'' ''Finance''"
                         and dateOf = clockOf and trips = loggedTrips,
                       OF sampleNow_valid criteria_period(4), THEN conjunct1]
    by (simp only: windows_sample)
  note w = filter_step [where now = sampleNow and filters = "criteria ''Week'' []"
                          and dateOf = clockOf and trips = loggedTrips,
                        OF sampleNow_valid criteria_period(2), THEN conjunct2,
                        THEN conjunct2, rule_format]
  let ?old = "\<lparr>getFullYear = 2025, getMonth = 4, getDate = 27, msOfDay = 1800000\<rparr>"
  let ?new = "\<lparr>getFullYear = 2025, getMonth = 5, getDate = 3, msOfDay = 25200000\<rparr>"
  have b: "0 \<le> msOfDay ?old" "msOfDay ?old < 86400000"
           "0 \<le> msOfDay ?new" "msOfDay ?new < 86400000"
           "0 \<le> msOfDay sampleNow" "msOfDay sampleNow < 86400000"
    by (simp_all add: week_samples(5))
  have 5: "localMs sampleNow - (7 * 86400000 + msOfDay sampleNow) \<le> localMs ?old
           \<and> localMs ?old \<le> localMs sampleNow"
    using w [of ?old] week_samples(1,2) b by blast
  have 6: "inWindow sampleNow ''Week'' (Some ?new)"
    using w [of ?new] week_samples(3,4) b by blast
  from 1 2 3 4 5 6 sampleNow_valid week_start_sample week_samples show ?thesis by blast
qed

end
